theory Spec2Isabelle
  imports Main
begin

section \<open>Expression trees\<close>

text \<open>
  The transformation works on the abstract syntax tree of a JavaScript document, in the
  node vocabulary of the Babel parser as seen through ast-types. Only the node kinds that
  the source inspects are kept apart; every other kind is an \<open>OtherExpression\<close> with its
  kind name and its child expressions.

  In ast-types the definitions \<open>OptionalMemberExpression\<close> and \<open>OptionalCallExpression\<close>
  have \<open>MemberExpression\<close> and \<open>CallExpression\<close> as base, so \<open>j.MemberExpression.check\<close>
  accepts both kinds of member access and \<open>j.CallExpression.check\<close> both kinds of call.
  The two kinds therefore share a constructor whose first field says whether the node is
  of the optional kind.

  Operators are the strings of the source (\<open>''==''\<close>, \<open>''&&''\<close>, \<open>''void''\<close>, ...).
  An array literal holds \<open>None\<close> where the literal has a hole.

  The source compares nodes in two ways: by structure (\<open>areNodesEqual\<close>) and, in one place,
  by identity (\<open>node.right === targetExpression\<close>, where the target is the right-hand side
  of an assignment of the document). A tree has no identity, so an assignment carries a
  number that stands for the identity of its right-hand side: in a parsed document no two
  assignments share it, and the one builder call that makes an assignment from the
  right-hand side of another node (\<open>j.assignmentExpression(node.operator, targetExpression,
  node.right)\<close>) keeps it with that right-hand side.
\<close>

datatype expr =
    Identifier string
  | NullLiteral
  | NumericLiteral int
  | StringLiteral string
  | BooleanLiteral bool
  | Literal string
  | MemberExpression bool expr expr bool
  | CallExpression bool expr "expr list"
  | SequenceExpression "expr list"
  | AssignmentExpression nat string expr expr
  | UnaryExpression string expr bool
  | BinaryExpression string expr expr
  | LogicalExpression string expr expr
  | ConditionalExpression expr expr expr
  | ArrayExpression "expr option list"
  | SpreadElement expr
  | OtherExpression string "expr list"

text \<open>A builder of ast-types throws when an argument does not fit the field it is given for.\<close>

datatype error = BuilderError

fun isSpreadElement :: "expr \<Rightarrow> bool" where
  "isSpreadElement (SpreadElement a) = True"
| "isSpreadElement e = False"

fun isAssignmentExpression :: "expr \<Rightarrow> bool" where
  "isAssignmentExpression (AssignmentExpression i op l r) = True"
| "isAssignmentExpression e = False"

fun isIdentifier :: "expr \<Rightarrow> bool" where
  "isIdentifier (Identifier n) = True"
| "isIdentifier e = False"

fun isMemberExpression :: "expr \<Rightarrow> bool" where
  "isMemberExpression (MemberExpression opt ob pr c) = True"
| "isMemberExpression e = False"

fun isArrayExpression :: "expr \<Rightarrow> bool" where
  "isArrayExpression (ArrayExpression els) = True"
| "isArrayExpression e = False"

text \<open>
  Field reads. Each is used only behind the check of the node kind that has the field;
  on any other node it returns a fixed value that no caller looks at.
\<close>

fun objectOf :: "expr \<Rightarrow> expr" where
  "objectOf (MemberExpression opt ob pr c) = ob"
| "objectOf e = e"

fun propertyOf :: "expr \<Rightarrow> expr" where
  "propertyOf (MemberExpression opt ob pr c) = pr"
| "propertyOf e = e"

fun computedOf :: "expr \<Rightarrow> bool" where
  "computedOf (MemberExpression opt ob pr c) = c"
| "computedOf e = False"

fun nameOf :: "expr \<Rightarrow> string" where
  "nameOf (Identifier n) = n"
| "nameOf e = []"

fun elementsOf :: "expr \<Rightarrow> expr option list" where
  "elementsOf (ArrayExpression els) = els"
| "elementsOf e = []"

fun identityOf :: "expr \<Rightarrow> nat" where
  "identityOf (AssignmentExpression i op l r) = i"
| "identityOf e = 0"

text \<open>
  \<open>areNodesEqual\<close> of \<open>@wakaru/ast-utils/matchers\<close> is not part of the sources at hand.
  Modelled from the spec: "equality comparisons are structural, not by identity": two nodes
  are equal when their trees are, whatever the identities they carry.
\<close>

fun eraseIdentity :: "expr \<Rightarrow> expr" where
  "eraseIdentity (MemberExpression opt ob pr c) =
     MemberExpression opt (eraseIdentity ob) (eraseIdentity pr) c"
| "eraseIdentity (CallExpression opt callee arguments) =
     CallExpression opt (eraseIdentity callee) (map eraseIdentity arguments)"
| "eraseIdentity (SequenceExpression expressions) = SequenceExpression (map eraseIdentity expressions)"
| "eraseIdentity (AssignmentExpression i op l r) =
     AssignmentExpression 0 op (eraseIdentity l) (eraseIdentity r)"
| "eraseIdentity (UnaryExpression op arg prefix) = UnaryExpression op (eraseIdentity arg) prefix"
| "eraseIdentity (BinaryExpression op l r) = BinaryExpression op (eraseIdentity l) (eraseIdentity r)"
| "eraseIdentity (LogicalExpression op l r) = LogicalExpression op (eraseIdentity l) (eraseIdentity r)"
| "eraseIdentity (ConditionalExpression test consequent alternate) =
     ConditionalExpression (eraseIdentity test) (eraseIdentity consequent) (eraseIdentity alternate)"
| "eraseIdentity (ArrayExpression els) = ArrayExpression (map (map_option eraseIdentity) els)"
| "eraseIdentity (SpreadElement arg) = SpreadElement (eraseIdentity arg)"
| "eraseIdentity (OtherExpression kind es) = OtherExpression kind (map eraseIdentity es)"
| "eraseIdentity e = e"

definition areNodesEqual :: "expr \<Rightarrow> expr \<Rightarrow> bool" where
  "areNodesEqual a b = (eraseIdentity a = eraseIdentity b)"

text \<open>
  \<open>memberExpressionKindTypes\<close> and \<open>patternKindTypes\<close> are tables of node kinds that are
  not part of the sources at hand.
  Modelled from the spec: the target is substituted on the left of an assignment "only if
  the target is itself an assignable shape"; of the node kinds kept apart here these are the
  member accesses and the identifiers.
\<close>

definition isAssignableKind :: "expr \<Rightarrow> bool" where
  "isAssignableKind t = (isMemberExpression t \<or> isIdentifier t)"

text \<open>\<open>areNodesEqual(j, node.arguments[0], tempVariable)\<close>: false when there is no argument.\<close>

fun firstArgumentEquals :: "expr list \<Rightarrow> expr \<Rightarrow> bool" where
  "firstArgumentEquals [] tmp = False"
| "firstArgumentEquals (a # args) tmp = areNodesEqual a tmp"

text \<open>\<open>const [_, arg] = node.arguments\<close>: \<open>None\<close> when \<open>arg\<close> is \<open>undefined\<close>.\<close>

fun secondArgument :: "expr list \<Rightarrow> expr option" where
  "secondArgument (a # arg # args) = Some arg"
| "secondArgument args = None"

text \<open>\<open>element ?? j.identifier('undefined')\<close>\<close>

definition holeToUndefined :: "expr option \<Rightarrow> expr" where
  "holeToUndefined element = (case element of None \<Rightarrow> Identifier ''undefined'' | Some e \<Rightarrow> e)"

text \<open>
  The callee pattern \<open>(0, tempVariable)\<close>: a sequence expression of exactly two expressions,
  the first the numeric literal 0 and the second equal to the token.
\<close>

fun isCommaGuard :: "expr \<Rightarrow> expr \<Rightarrow> bool" where
  "isCommaGuard (SequenceExpression [NumericLiteral v, e1]) tmp = (v = 0 \<and> areNodesEqual e1 tmp)"
| "isCommaGuard e tmp = False"

text \<open>
  \<open>j.optionalCallExpression(callee, args)\<close> once the callee and the arguments have been
  rewritten; every branch that builds it this way sets \<open>transformed\<close>.
\<close>

definition optionalCallExpression ::
  "error + (expr \<times> bool) \<Rightarrow> error + (expr list \<times> bool) \<Rightarrow> error + (expr \<times> bool)" where
  "optionalCallExpression c a =
     (case c of Inl e \<Rightarrow> Inl e
      | Inr (callee, m) \<Rightarrow>
          (case a of Inl e \<Rightarrow> Inl e
           | Inr (args, ms) \<Rightarrow> Inr (CallExpression True callee args, True)))"

text \<open>
  The optional argument \<open>targetExpression\<close>: when given, the identity and the tree of the
  right-hand side that the caller passes.
\<close>

type_synonym target = "(nat \<times> expr) option"

text \<open>The callee \<open>targetExpression as Identifier\<close>: the builder throws when there is no target.\<close>

definition targetCallee :: "target \<Rightarrow> error + (expr \<times> bool)" where
  "targetCallee target = (case target of None \<Rightarrow> Inl BuilderError | Some t \<Rightarrow> Inr (snd t, False))"

text \<open>\<open>targetExpression || fallback\<close>\<close>

definition targetOr :: "target \<Rightarrow> expr \<Rightarrow> expr" where
  "targetOr target fallback = (case target of None \<Rightarrow> fallback | Some t \<Rightarrow> snd t)"

section \<open>The Expression Rewriter\<close>

text \<open>
  \<open>applyOptionalChaining(j, node, tempVariable, targetExpression)\<close>. The first argument
  \<open>sp\<close> stands for \<open>smartParenthesized\<close>, which is not part of the sources at hand.

  The global \<open>transformed\<close> is only ever assigned \<open>true\<close> in this function and never read
  by it, so a call returns, next to the rewritten node, whether it assigned the flag.
  A throwing builder is \<open>Inl BuilderError\<close>.

  The identity test \<open>node.right === targetExpression\<close> compares the identity that the
  assignment carries with the identity of the target.

  Line 214 writes the rewritten object into the member access it was read from; the value
  returned is the member access with the rewritten object, which is what this function
  gives. What that write leaves behind in the document is outside this function.

  In the source every branch of the two blocks on \<open>call\<close>, \<open>apply\<close> and \<open>bind\<close> that is
  entered returns, so the nested conditions are written as one chain of alternatives in
  the order of the source. \<open>applyArguments\<close> is the
  \<open>args.map(arg => j.SpreadElement.check(arg) ? arg : applyOptionalChaining(...))\<close>
  that the source repeats.
\<close>

function (sequential) applyOptionalChaining ::
      "(expr \<Rightarrow> expr) \<Rightarrow> expr \<Rightarrow> expr \<Rightarrow> target \<Rightarrow> error + (expr \<times> bool)"
  and applyArguments ::
      "(expr \<Rightarrow> expr) \<Rightarrow> expr list \<Rightarrow> expr \<Rightarrow> target \<Rightarrow> error + (expr list \<times> bool)"
where
  "applyOptionalChaining sp (MemberExpression opt object property computed) tmp target =
     (if areNodesEqual object tmp then
        Inr (MemberExpression True
               (case target of Some t \<Rightarrow> sp (snd t) | None \<Rightarrow> object) property computed, True)
      else
        (case applyOptionalChaining sp object tmp target of
           Inl e \<Rightarrow> Inl e
         | Inr (object', m) \<Rightarrow> Inr (MemberExpression opt object' property computed, m)))"
| "applyOptionalChaining sp (CallExpression opt callee arguments) tmp target =
     (if isMemberExpression callee \<and> isMemberExpression (objectOf callee)
          \<and> isIdentifier (propertyOf callee) \<and> nameOf (propertyOf callee) = ''call''
          \<and> firstArgumentEquals arguments tmp then
        optionalCallExpression
          (applyOptionalChaining sp (objectOf callee) tmp target)
          (applyArguments sp (tl arguments) tmp target)
      else if isMemberExpression callee \<and> isMemberExpression (objectOf callee)
          \<and> isIdentifier (propertyOf callee) \<and> nameOf (propertyOf callee) = ''apply'' then
        (case secondArgument arguments of
           None \<Rightarrow> Inl BuilderError
         | Some arg \<Rightarrow>
             if isSpreadElement arg then Inr (CallExpression opt callee arguments, False)
             else
               optionalCallExpression
                 (applyOptionalChaining sp (objectOf callee) tmp target)
                 (if isArrayExpression arg
                  then applyArguments sp (map holeToUndefined (elementsOf arg)) tmp target
                  else Inr ([SpreadElement arg], False)))
      else if isMemberExpression callee \<and> isMemberExpression (objectOf callee)
          \<and> isIdentifier (propertyOf callee) \<and> nameOf (propertyOf callee) = ''bind''
          \<and> firstArgumentEquals arguments tmp then
        (case applyOptionalChaining sp (objectOf (objectOf callee)) tmp target of
           Inl e \<Rightarrow> Inl e
         | Inr (object', m1) \<Rightarrow>
             (case applyOptionalChaining sp (propertyOf (objectOf callee)) tmp target of
                Inl e \<Rightarrow> Inl e
              | Inr (property', m2) \<Rightarrow>
                  Inr (MemberExpression (\<not> isAssignmentExpression (objectOf (objectOf callee)))
                         object' property' (computedOf (objectOf callee)),
                       m1 \<or> m2 \<or> \<not> isAssignmentExpression (objectOf (objectOf callee)))))
      else if isMemberExpression callee \<and> areNodesEqual (objectOf callee) tmp
          \<and> isIdentifier (propertyOf callee) \<and> nameOf (propertyOf callee) = ''call'' then
        optionalCallExpression (targetCallee target)
          (applyArguments sp (tl arguments) tmp target)
      else if isMemberExpression callee \<and> areNodesEqual (objectOf callee) tmp
          \<and> isIdentifier (propertyOf callee) \<and> nameOf (propertyOf callee) = ''apply'' then
        (case secondArgument arguments of
           None \<Rightarrow> Inl BuilderError
         | Some arg \<Rightarrow>
             if isSpreadElement arg then Inr (CallExpression opt callee arguments, False)
             else
               optionalCallExpression (targetCallee target)
                 (if isArrayExpression arg
                  then applyArguments sp (map holeToUndefined (elementsOf arg)) tmp target
                  else Inr ([SpreadElement arg], False)))
      else if isCommaGuard callee tmp then
        optionalCallExpression
          (Inr (sp (SequenceExpression [NumericLiteral 0, targetOr target tmp]), False))
          (applyArguments sp arguments tmp target)
      else if areNodesEqual callee tmp then
        Inr (CallExpression True (targetOr target callee) arguments, True)
      else
        (case applyOptionalChaining sp callee tmp target of
           Inl e \<Rightarrow> Inl e
         | Inr (callee', m1) \<Rightarrow>
             (case applyArguments sp arguments tmp target of
                Inl e \<Rightarrow> Inl e
              | Inr (args', m2) \<Rightarrow> Inr (CallExpression opt callee' args', m1 \<or> m2))))"
| "applyOptionalChaining sp (AssignmentExpression i op left right) tmp target =
     (case target of
        None \<Rightarrow> Inr (AssignmentExpression i op left right, False)
      | Some t \<Rightarrow>
          if areNodesEqual left tmp then
            (if i = fst t then Inr (snd t, False)
             else if isAssignableKind (snd t)
             then Inr (AssignmentExpression i op (snd t) right, False)
             else Inr (AssignmentExpression i op left right, False))
          else Inr (AssignmentExpression i op left right, False))"
| "applyOptionalChaining sp (Identifier n) tmp target =
     (case target of
        None \<Rightarrow> Inr (Identifier n, False)
      | Some t \<Rightarrow>
          if areNodesEqual (Identifier n) tmp then Inr (sp (snd t), False)
          else Inr (Identifier n, False))"
| "applyOptionalChaining sp (UnaryExpression op argument prefix) tmp target =
     (case applyOptionalChaining sp argument tmp target of
        Inl e \<Rightarrow> Inl e
      | Inr (arg, m) \<Rightarrow> Inr (UnaryExpression op arg prefix, m))"
| "applyOptionalChaining sp node tmp target = Inr (node, False)"
| "applyArguments sp [] tmp target = Inr ([], False)"
| "applyArguments sp (arg # args) tmp target =
     (case (if isSpreadElement arg then Inr (arg, False)
            else applyOptionalChaining sp arg tmp target) of
        Inl e \<Rightarrow> Inl e
      | Inr (arg', m) \<Rightarrow>
          (case applyArguments sp args tmp target of
             Inl e \<Rightarrow> Inl e
           | Inr (args', ms) \<Rightarrow> Inr (arg' # args', m \<or> ms)))"
  by pat_completeness auto

lemma size_objectOf_le: "size (objectOf e) \<le> size e"
  by (cases e) auto

lemma size_propertyOf_le: "size (propertyOf e) \<le> size e"
  by (cases e) auto

lemma size_secondArgument: "secondArgument args = Some arg \<Longrightarrow> size arg < size_list size args"
  by (induction args rule: secondArgument.induct) auto

lemma size_elementsOf: "size_list (size \<circ> holeToUndefined) (elementsOf arg) \<le> size arg"
proof (cases arg)
  case (ArrayExpression els)
  have "size_list (size \<circ> holeToUndefined) els \<le> size_list (size_option size) els"
    by (induction els) (auto simp: holeToUndefined_def split: option.splits)
  with ArrayExpression show ?thesis by simp
qed auto

lemma size_tl_arguments: "size_list size (tl args) \<le> size_list size args"
  by (cases args) auto

lemma size_callee_object:
  "size (objectOf callee) \<le> size_list size arguments + size callee"
  using size_objectOf_le [of callee] by simp

lemma size_callee_object_object:
  "size (objectOf (objectOf callee)) \<le> size_list size arguments + size callee"
  using size_objectOf_le [of callee] size_objectOf_le [of "objectOf callee"] by simp

lemma size_callee_object_property:
  "size (propertyOf (objectOf callee)) \<le> size_list size arguments + size callee"
  using size_objectOf_le [of callee] size_propertyOf_le [of "objectOf callee"] by simp

lemma size_apply_elements:
  "secondArgument arguments = Some arg \<Longrightarrow>
   size_list (size \<circ> holeToUndefined) (elementsOf arg) \<le> size_list size arguments + size callee"
  using size_secondArgument [of arguments arg] size_elementsOf [of arg] by simp

termination applyOptionalChaining
  apply (relation "measure (\<lambda>x. case x of Inl (sp, node, tmp, target) \<Rightarrow> size node
                                  | Inr (sp, args, tmp, target) \<Rightarrow> size_list size args)")
  apply (auto simp: less_Suc_eq_le size_tl_arguments size_callee_object
      size_callee_object_object size_callee_object_property size_apply_elements
      intro: less_imp_le trans_le_add2 trans_le_add1)
  done

section \<open>Matchers\<close>

text \<open>
  The matchers of \<open>@wakaru/ast-utils/matchers\<close> are not part of the sources at hand.
  Modelled from the spec: a "null comparison" and an "undefined comparison" are equality
  tests (loose \<open>==\<close> or strict \<open>===\<close>, the two operators the Chain Constructor tells apart)
  with \<open>null\<close>, respectively \<open>undefined\<close>, on either side; the "strict not-null form" is
  \<open>!==\<close> with \<open>null\<close> on either side; \<open>undefined\<close> is the identifier of that name or
  \<open>void 0\<close>; "true" is the literal or its minified form \<open>!0\<close>.
\<close>

definition isNull :: "expr \<Rightarrow> bool" where
  "isNull e = (e = NullLiteral)"

fun isUndefined :: "expr \<Rightarrow> bool" where
  "isUndefined (Identifier n) = (n = ''undefined'')"
| "isUndefined (UnaryExpression op arg prefix) = (op = ''void'' \<and> arg = NumericLiteral 0)"
| "isUndefined e = False"

fun isTrue :: "expr \<Rightarrow> bool" where
  "isTrue (BooleanLiteral b) = b"
| "isTrue (UnaryExpression op arg prefix) = (op = ''!'' \<and> arg = NumericLiteral 0)"
| "isTrue e = False"

fun isNullBinary :: "expr \<Rightarrow> bool" where
  "isNullBinary (BinaryExpression op l r) = ((op = ''=='' \<or> op = ''==='') \<and> (isNull l \<or> isNull r))"
| "isNullBinary e = False"

fun isNotNullBinary :: "expr \<Rightarrow> bool" where
  "isNotNullBinary (BinaryExpression op l r) = (op = ''!=='' \<and> (isNull l \<or> isNull r))"
| "isNotNullBinary e = False"

fun isUndefinedBinary :: "expr \<Rightarrow> bool" where
  "isUndefinedBinary (BinaryExpression op l r) =
     ((op = ''=='' \<or> op = ''==='') \<and> (isUndefined l \<or> isUndefined r))"
| "isUndefinedBinary e = False"

fun isDeleteUnary :: "expr \<Rightarrow> bool" where
  "isDeleteUnary (UnaryExpression op arg prefix) = (op = ''delete'')"
| "isDeleteUnary e = False"

fun leftOf :: "expr \<Rightarrow> expr" where
  "leftOf (AssignmentExpression i op l r) = l"
| "leftOf (BinaryExpression op l r) = l"
| "leftOf (LogicalExpression op l r) = l"
| "leftOf e = e"

fun rightOf :: "expr \<Rightarrow> expr" where
  "rightOf (AssignmentExpression i op l r) = r"
| "rightOf (BinaryExpression op l r) = r"
| "rightOf (LogicalExpression op l r) = r"
| "rightOf e = e"

fun operatorOf :: "expr \<Rightarrow> string" where
  "operatorOf (AssignmentExpression i op l r) = op"
| "operatorOf (BinaryExpression op l r) = op"
| "operatorOf (LogicalExpression op l r) = op"
| "operatorOf (UnaryExpression op arg prefix) = op"
| "operatorOf e = []"

section \<open>Decision trees\<close>

text \<open>
  \<open>DecisionTree\<close> of \<open>../utils/decisionTree\<close>: a condition, and a true and a false branch
  that may be absent (\<open>null\<close>).
\<close>

datatype dtree = DecisionTree expr "dtree option" "dtree option"

fun conditionOf :: "dtree \<Rightarrow> expr" where
  "conditionOf (DecisionTree condition trueBranch falseBranch) = condition"

text \<open>
  The builder, the condition splitting, the negator and \<open>negateCondition\<close> are not part of
  the sources at hand.

  Modelled from the spec (4.1): \<open>a ? b : c\<close> gives \<open>{cond: a, true: T(b), false: T(c)}\<close>,
  \<open>a && b\<close> gives \<open>{cond: a, true: T(b), false: leaf(falsy)}\<close>, \<open>a || b\<close> gives
  \<open>{cond: a, true: leaf(truthy), false: T(b)}\<close>; any other expression is a leaf that
  carries it. The two leaves that stand for no expression of the input are the absent
  branches of the data model (\<open>trueBranch: DecisionTree?\<close>), which the source tests with
  \<open>!tree\<close> and \<open>!falseBranch\<close>.
\<close>

fun makeDecisionTree :: "expr \<Rightarrow> dtree" where
  "makeDecisionTree (ConditionalExpression test consequent alternate) =
     DecisionTree test (Some (makeDecisionTree consequent)) (Some (makeDecisionTree alternate))"
| "makeDecisionTree (LogicalExpression op l r) =
     (if op = ''&&'' then DecisionTree l (Some (makeDecisionTree r)) None
      else if op = ''||'' then DecisionTree l None (Some (makeDecisionTree r))
      else DecisionTree (LogicalExpression op l r) None None)"
| "makeDecisionTree node = DecisionTree node None None"

text \<open>
  Modelled from the spec (4.1): "compound conditions containing nested logical operators
  are recursively split so every node carries one atomic comparison": a node on \<open>l && r\<close>
  becomes a node on \<open>l\<close> whose true branch is the node on \<open>r\<close>, a node on \<open>l || r\<close> a node
  on \<open>l\<close> whose false branch is the node on \<open>r\<close>, the other branch being shared.
\<close>

fun splitCondition :: "expr \<Rightarrow> dtree option \<Rightarrow> dtree option \<Rightarrow> dtree" where
  "splitCondition (LogicalExpression op l r) trueBranch falseBranch =
     (if op = ''&&'' then
        splitCondition l (Some (splitCondition r trueBranch falseBranch)) falseBranch
      else if op = ''||'' then
        splitCondition l trueBranch (Some (splitCondition r trueBranch falseBranch))
      else DecisionTree (LogicalExpression op l r) trueBranch falseBranch)"
| "splitCondition condition trueBranch falseBranch = DecisionTree condition trueBranch falseBranch"

fun makeDecisionTreeWithConditionSplitting :: "dtree \<Rightarrow> dtree" where
  "makeDecisionTreeWithConditionSplitting (DecisionTree condition trueBranch falseBranch) =
     splitCondition condition
       (case trueBranch of None \<Rightarrow> None
        | Some t \<Rightarrow> Some (makeDecisionTreeWithConditionSplitting t))
       (case falseBranch of None \<Rightarrow> None
        | Some f \<Rightarrow> Some (makeDecisionTreeWithConditionSplitting f))"

text \<open>
  Modelled from the spec (4.2): the negation of a condition. An equality test takes the
  opposite operator, a logical negation loses its \<open>!\<close>, a conjunction or disjunction is
  negated by De Morgan's law, and any other expression gains a \<open>!\<close>.
\<close>

fun negateOperator :: "string \<Rightarrow> string option" where
  "negateOperator op =
     (if op = ''=='' then Some ''!='' else if op = ''!='' then Some ''==''
      else if op = ''==='' then Some ''!=='' else if op = ''!=='' then Some ''===''
      else None)"

fun negateCondition :: "expr \<Rightarrow> expr" where
  "negateCondition (UnaryExpression op arg prefix) =
     (if op = ''!'' then arg else UnaryExpression ''!'' (UnaryExpression op arg prefix) True)"
| "negateCondition (BinaryExpression op l r) =
     (case negateOperator op of
        Some op' \<Rightarrow> BinaryExpression op' l r
      | None \<Rightarrow> UnaryExpression ''!'' (BinaryExpression op l r) True)"
| "negateCondition (LogicalExpression op l r) =
     (if op = ''&&'' then LogicalExpression ''||'' (negateCondition l) (negateCondition r)
      else if op = ''||'' then LogicalExpression ''&&'' (negateCondition l) (negateCondition r)
      else UnaryExpression ''!'' (LogicalExpression op l r) True)"
| "negateCondition e = UnaryExpression ''!'' e True"

text \<open>
  Modelled from the spec (4.2): the negator "negates every condition and swaps branches at
  every level".
\<close>

fun negateDecisionTree :: "dtree \<Rightarrow> dtree" where
  "negateDecisionTree (DecisionTree condition trueBranch falseBranch) =
     DecisionTree (negateCondition condition)
       (case falseBranch of None \<Rightarrow> None | Some f \<Rightarrow> Some (negateDecisionTree f))
       (case trueBranch of None \<Rightarrow> None | Some t \<Rightarrow> Some (negateDecisionTree t))"

section \<open>The Chain Constructor\<close>

fun isFalsyBranch :: "dtree option \<Rightarrow> bool" where
  "isFalsyBranch None = True"
| "isFalsyBranch (Some (DecisionTree condition trueBranch falseBranch)) =
     ((isNull condition \<or> isUndefined condition)
      \<and> (trueBranch = None \<or> isFalsyBranch trueBranch)
      \<and> (falseBranch = None \<or> isFalsyBranch falseBranch))"

fun getDeepestFalseBranch :: "dtree \<Rightarrow> dtree" where
  "getDeepestFalseBranch (DecisionTree condition trueBranch falseBranch) =
     (case falseBranch of
        None \<Rightarrow> DecisionTree condition trueBranch falseBranch
      | Some f \<Rightarrow> getDeepestFalseBranch f)"

text \<open>
  \<open>j(node).find(j.AssignmentExpression, { left: { type: 'Identifier' } }).nodes()\<close>:
  the assignments to a plain identifier among the proper descendants of the node, in the
  order of the traversal (a node before its children, the children in field order).
\<close>

fun children :: "expr \<Rightarrow> expr list" where
  "children (MemberExpression opt ob pr c) = [ob, pr]"
| "children (CallExpression opt callee arguments) = callee # arguments"
| "children (SequenceExpression expressions) = expressions"
| "children (AssignmentExpression i op l r) = [l, r]"
| "children (UnaryExpression op arg prefix) = [arg]"
| "children (BinaryExpression op l r) = [l, r]"
| "children (LogicalExpression op l r) = [l, r]"
| "children (ConditionalExpression test consequent alternate) = [test, consequent, alternate]"
| "children (ArrayExpression els) = concat (map (\<lambda>el. case el of None \<Rightarrow> [] | Some e \<Rightarrow> [e]) els)"
| "children (SpreadElement arg) = [arg]"
| "children (OtherExpression kind es) = es"
| "children e = []"

lemma size_member_le: "c \<in> set es \<Longrightarrow> size c \<le> size_list size es"
  by (induction es) auto

lemma size_children: "c \<in> set (children e) \<Longrightarrow> size c < size e"
proof (cases e)
  case (CallExpression opt callee arguments)
  assume "c \<in> set (children e)"
  with CallExpression have "c = callee \<or> c \<in> set arguments" by simp
  then show ?thesis
    using CallExpression size_member_le [of c arguments] by auto
next
  case (SequenceExpression es)
  assume "c \<in> set (children e)"
  with SequenceExpression show ?thesis
    using size_member_le [of c es] by auto
next
  case (OtherExpression kind es)
  assume "c \<in> set (children e)"
  with OtherExpression show ?thesis
    using size_member_le [of c es] by auto
next
  case (ArrayExpression els)
  assume "c \<in> set (children e)"
  with ArrayExpression have "Some c \<in> set els" by (auto split: option.splits)
  then have "size_option size (Some c) \<le> size_list (size_option size) els"
    by (induction els) auto
  with ArrayExpression show ?thesis by simp
qed auto

function nodesOf :: "expr \<Rightarrow> expr list" where
  "nodesOf e = e # concat (map nodesOf (children e))"
  by pat_completeness auto
termination
  by (relation "measure size") (auto simp: size_children)

declare nodesOf.simps [simp del]

fun isAssignmentToIdentifier :: "expr \<Rightarrow> bool" where
  "isAssignmentToIdentifier (AssignmentExpression i op l r) = isIdentifier l"
| "isAssignmentToIdentifier e = False"

definition nestedAssignments :: "expr \<Rightarrow> expr list" where
  "nestedAssignments e = filter isAssignmentToIdentifier (concat (map nodesOf (children e)))"

text \<open>
  \<open>allAssignment.reduce((acc, curr) => applyOptionalChaining(j, acc, curr.left, curr.right), init)\<close>
\<close>

fun foldAssignments :: "(expr \<Rightarrow> expr) \<Rightarrow> expr list \<Rightarrow> expr \<Rightarrow> error + (expr \<times> bool)" where
  "foldAssignments sp [] acc = Inr (acc, False)"
| "foldAssignments sp (assignment # others) acc =
     (case applyOptionalChaining sp acc (leftOf assignment)
             (Some (identityOf assignment, rightOf assignment)) of
        Inl e \<Rightarrow> Inl e
      | Inr (acc', m) \<Rightarrow>
          (case foldAssignments sp others acc' of
             Inl e \<Rightarrow> Inl e
           | Inr (result, ms) \<Rightarrow> Inr (result, m \<or> ms)))"

text \<open>
  The names handed to \<open>removeDeclarationIfUnused\<close>, the Scope Cleaner, which is not part of
  the sources at hand: the model records the names submitted, in order.
\<close>

definition submittedNames :: "expr list \<Rightarrow> string list" where
  "submittedNames assignments = map (\<lambda>a. nameOf (leftOf a)) (filter (\<lambda>a. isIdentifier (leftOf a)) assignments)"

text \<open>
  What a call of the Chain Constructor leaves behind: the expression it returns (\<open>None\<close>
  for \<open>null\<close>), whether \<open>transformed\<close> was assigned during the call, and the names submitted
  to the Scope Cleaner during the call.
\<close>

type_synonym outcome = "expr option \<times> bool \<times> string list"

text \<open>The test on \<open>trueBranch\<close> that opens \<open>constructOptionalChaining\<close>.\<close>

definition branchRejected :: "dtree \<Rightarrow> bool" where
  "branchRejected tree =
     (case tree of DecisionTree condition trueBranch falseBranch \<Rightarrow>
        (case trueBranch of
           Some t \<Rightarrow>
             if isDeleteUnary (conditionOf (getDeepestFalseBranch tree))
             then \<not> isFalsyBranch trueBranch \<and> \<not> isTrue (conditionOf t)
             else \<not> isFalsyBranch trueBranch
         | None \<Rightarrow> \<not> isFalsyBranch trueBranch))"

text \<open>
  Flag 0, no false branch (lines 110 to 130): the assignments to a plain identifier nested
  in the condition, then the condition itself when it is one; each is folded into the
  condition and its name is submitted to the Scope Cleaner.
\<close>

definition leafAssignments :: "expr \<Rightarrow> expr list" where
  "leafAssignments condition =
     nestedAssignments condition
       @ (if isAssignmentExpression condition \<and> isIdentifier (leftOf condition)
          then [condition] else [])"

definition leafCase :: "(expr \<Rightarrow> expr) \<Rightarrow> expr \<Rightarrow> error + outcome" where
  "leafCase sp condition =
     (case foldAssignments sp (leafAssignments condition) condition of
        Inl e \<Rightarrow> Inl e
      | Inr (result, m) \<Rightarrow> Inr (Some result, m, submittedNames (leafAssignments condition)))"

text \<open>
  Flag 0, a null comparison with a false branch (lines 132 to 163), given what the
  recursive call on the false branch left behind. The block either returns or falls
  through to the next one.
\<close>

datatype step = Return outcome | FallThrough bool "string list"

definition nullComparisonCase ::
  "(expr \<Rightarrow> expr) \<Rightarrow> expr \<Rightarrow> error + outcome \<Rightarrow> error + step" where
  "nullComparisonCase sp condition rec =
     (case rec of
        Inl e \<Rightarrow> Inl e
      | Inr (None, m, names) \<Rightarrow> Inr (Return (None, m, names))
      | Inr (Some cond, m, names) \<Rightarrow>
          (let left = leftOf condition;
               right = rightOf condition;
               nonNullExpr = (if left = NullLiteral then right else left)
           in if isAssignmentExpression nonNullExpr \<and> isIdentifier (leftOf nonNullExpr) then
                (let allAssignment = nonNullExpr # nestedAssignments nonNullExpr
                 in case foldAssignments sp allAssignment cond of
                      Inl e \<Rightarrow> Inl e
                    | Inr (result, m') \<Rightarrow>
                        Inr (Return (Some result, m \<or> m', names @ submittedNames allAssignment)))
              else if isIdentifier left \<or> isMemberExpression left then
                (case applyOptionalChaining sp cond left None of
                   Inl e \<Rightarrow> Inl e
                 | Inr (result, m') \<Rightarrow> Inr (Return (Some result, m \<or> m', names)))
              else Inr (FallThrough m names)))"

text \<open>
  Flag 0, a false branch (lines 165 to 180), given what the recursive call on the false
  branch in mode 0 left behind.
\<close>

definition falseBranchCase ::
  "(expr \<Rightarrow> expr) \<Rightarrow> expr \<Rightarrow> error + outcome \<Rightarrow> error + outcome" where
  "falseBranchCase sp condition rec =
     (case rec of
        Inl e \<Rightarrow> Inl e
      | Inr (None, m, names) \<Rightarrow> Inr (None, m, names)
      | Inr (Some cond, m, names) \<Rightarrow>
          (let id = (if leftOf condition = NullLiteral then rightOf condition else leftOf condition)
           in if isNullBinary condition \<and> (isIdentifier id \<or> isMemberExpression id) then
                (case applyOptionalChaining sp cond id None of
                   Inl e \<Rightarrow> Inl e
                 | Inr (result, m') \<Rightarrow> Inr (Some result, True, names))
              else
                (case applyOptionalChaining sp cond condition None of
                   Inl e \<Rightarrow> Inl e
                 | Inr (result, m') \<Rightarrow>
                     Inr (Some (LogicalExpression ''||'' condition result), m \<or> m', names))))"

text \<open>
  \<open>constructOptionalChaining(j, path, tree, flag)\<close>. The path is only handed on to the
  Scope Cleaner.

  A null comparison whose first block does not return (the compared expression is on the
  right and is no assignment to an identifier, or it is on the left and is neither an
  identifier nor a member access nor such an assignment) descends the false branch a second
  time, in mode 0 (line 166). The function gives what the second descent returns when it
  reads the false branch as the first descent found it. That is what the source computes
  when the first descent called neither the Expression Rewriter nor the Scope Cleaner, as
  over a leaf that holds no assignment; a first descent that called the rewriter may have
  written into member accesses of the false branch (line 214), and the second descent of
  the source then reads what was written. The properties below that speak of the second
  descent are stated for a first descent that made no such call.
\<close>

fun constructOptionalChaining :: "(expr \<Rightarrow> expr) \<Rightarrow> dtree \<Rightarrow> nat \<Rightarrow> error + outcome" where
  "constructOptionalChaining sp (DecisionTree condition trueBranch falseBranch) flag =
     (if branchRejected (DecisionTree condition trueBranch falseBranch) then Inr (None, False, [])
      else if flag = 0 then
        (case falseBranch of
           None \<Rightarrow> leafCase sp condition
         | Some f \<Rightarrow>
             (case (if isNullBinary condition
                    then nullComparisonCase sp condition
                           (constructOptionalChaining sp f (if operatorOf condition = ''=='' then 0 else 1))
                    else Inr (FallThrough False [])) of
                Inl e \<Rightarrow> Inl e
              | Inr (Return out) \<Rightarrow> Inr out
              | Inr (FallThrough m names) \<Rightarrow>
                  (case falseBranchCase sp condition (constructOptionalChaining sp f 0) of
                     Inl e \<Rightarrow> Inl e
                   | Inr (result, m', names') \<Rightarrow> Inr (result, m \<or> m', names @ names'))))
      else if flag = 1 then
        (case falseBranch of
           None \<Rightarrow> Inr (None, False, [])
         | Some f \<Rightarrow>
             if isUndefinedBinary condition then constructOptionalChaining sp f 0
             else Inr (None, False, []))
      else Inr (None, False, []))"

section \<open>The driver of one attempt\<close>

text \<open>
  \<open>convertOptionalChaining(j, path)\<close> on the node of the path. \<open>transformed\<close> is reset at
  the start, so its value after the Chain Constructor is what that call assigned.
  The node of the path is a conditional expression or a \<open>&&\<close> or \<open>||\<close> expression (the two
  searches of \<open>transformAST\<close>), which the tree builder always takes apart; what the Chain
  Constructor returns is then a node below the node of the path or a node built anew, so
  the identity test \<open>path.node === _result\<close> fails whenever it is reached, also when the
  result is a tree equal to the node. \<open>mergeComments\<close> moves comments, which the trees do
  not carry.

  The function gives what the attempt returns. What the Expression Rewriter wrote into
  member accesses of the node on the way (line 214) stays in the document, also when the
  attempt returns \<open>null\<close>.
\<close>

definition decisionTreeOf :: "expr \<Rightarrow> dtree" where
  "decisionTreeOf expression =
     (let tree = makeDecisionTreeWithConditionSplitting (makeDecisionTree expression)
      in if isNotNullBinary (conditionOf tree) then negateDecisionTree tree else tree)"

definition convertOptionalChaining :: "(expr \<Rightarrow> expr) \<Rightarrow> expr \<Rightarrow> error + expr option" where
  "convertOptionalChaining sp expression =
     (let tree = makeDecisionTreeWithConditionSplitting (makeDecisionTree expression);
          isNotNull = isNotNullBinary (conditionOf tree);
          decisionTree = (if isNotNull then negateDecisionTree tree else tree)
      in case constructOptionalChaining sp decisionTree 0 of
           Inl e \<Rightarrow> Inl e
         | Inr (None, transformed, names) \<Rightarrow> Inr None
         | Inr (Some result, transformed, names) \<Rightarrow>
             if \<not> transformed then Inr None
             else Inr (Some (if isNotNull then negateCondition result else result)))"

section \<open>The Nullish-Coalescing Chain Analyzer\<close>

fun isConditionalExpression :: "expr \<Rightarrow> bool" where
  "isConditionalExpression (ConditionalExpression test consequent alternate) = True"
| "isConditionalExpression e = False"

fun isLogicalExpression :: "expr \<Rightarrow> bool" where
  "isLogicalExpression (LogicalExpression op l r) = True"
| "isLogicalExpression e = False"

fun isBinaryExpression :: "expr \<Rightarrow> bool" where
  "isBinaryExpression (BinaryExpression op l r) = True"
| "isBinaryExpression e = False"

fun testOf :: "expr \<Rightarrow> expr" where
  "testOf (ConditionalExpression test consequent alternate) = test"
| "testOf e = e"

fun consequentOf :: "expr \<Rightarrow> expr" where
  "consequentOf (ConditionalExpression test consequent alternate) = consequent"
| "consequentOf e = e"

fun alternateOf :: "expr \<Rightarrow> expr" where
  "alternateOf (ConditionalExpression test consequent alternate) = alternate"
| "alternateOf e = e"

record PropertyInfo =
  propertyName :: string
  computed :: bool

record VarAssignment =
  varName :: string
  parent :: "string option"
  source :: expr
  properties :: "PropertyInfo list"

text \<open>
  A JavaScript \<open>Map\<close> keeps its keys in insertion order; \<open>set\<close> on a key that is present
  replaces the value in place.
\<close>

type_synonym varMap = "(string \<times> VarAssignment) list"

fun mapSet :: "string \<Rightarrow> VarAssignment \<Rightarrow> varMap \<Rightarrow> varMap" where
  "mapSet k v [] = [(k, v)]"
| "mapSet k v ((k', v') # m) = (if k = k' then (k, v) # m else (k', v') # mapSet k v m)"

definition mapHas :: "varMap \<Rightarrow> string \<Rightarrow> bool" where
  "mapHas m k = (map_of m k \<noteq> None)"

text \<open>A string or \<open>null\<close> used as a condition: \<open>null\<close> and the empty string are falsy.\<close>

fun truthy :: "string option \<Rightarrow> bool" where
  "truthy None = False"
| "truthy (Some n) = (n \<noteq> [])"

fun extractLogicalOrConditions :: "expr \<Rightarrow> expr list" where
  "extractLogicalOrConditions (LogicalExpression op l r) =
     (if op = ''||'' then extractLogicalOrConditions l @ extractLogicalOrConditions r
      else [LogicalExpression op l r])"
| "extractLogicalOrConditions e = [e]"

text \<open>
  One round of the loop of \<open>analyzeConditions\<close> on the pair of \<open>rootVar\<close> and \<open>varMap\<close>.
  \<open>toSource\<close> prints an expression (\<open>j(property).toSource()\<close>) and belongs to the host.
\<close>

definition analyzeCondition ::
  "(expr \<Rightarrow> string) \<Rightarrow> string option \<times> varMap \<Rightarrow> expr \<Rightarrow> string option \<times> varMap" where
  "analyzeCondition toSource state condition =
     (case state of (rootVar, varMap) \<Rightarrow>
      if \<not> isBinaryExpression condition then (rootVar, varMap)
      else
        let left = leftOf condition; right = rightOf condition; operator = operatorOf condition
        in
          if \<not> (operator \<in> set [''=='', ''==='', ''!='', ''!=='']
                 \<and> (isNull left \<or> isNull right \<or> isUndefined left \<or> isUndefined right))
          then (rootVar, varMap)
          else
            let expr = (if isNull left \<or> isUndefined left then right else left);
                (rootVar1, varMap1) =
                  (if isIdentifier expr \<and> \<not> truthy rootVar then
                     (Some (nameOf expr),
                      mapSet (nameOf expr)
                        \<lparr>varName = nameOf expr, parent = None, source = expr, properties = []\<rparr>
                        varMap)
                   else (rootVar, varMap))
            in
              if isAssignmentExpression expr \<and> isIdentifier (leftOf expr)
                 \<and> isMemberExpression (rightOf expr) then
                let assignedVar = nameOf (leftOf expr);
                    sourceExpr = rightOf expr;
                    objExpr = objectOf sourceExpr;
                    parentVar = (if isIdentifier objExpr then Some (nameOf objExpr) else None);
                    (rootVar2, varMap2) =
                      (if isIdentifier objExpr \<and> \<not> truthy rootVar1
                          \<and> \<not> mapHas varMap1 (nameOf objExpr) then
                         (Some (nameOf objExpr),
                          mapSet (nameOf objExpr)
                            \<lparr>varName = nameOf objExpr, parent = None, source = objExpr,
                             properties = []\<rparr>
                            varMap1)
                       else (rootVar1, varMap1));
                    property = propertyOf sourceExpr;
                    name = (if isIdentifier property then nameOf property else toSource property)
                in (rootVar2,
                    mapSet assignedVar
                      \<lparr>varName = assignedVar, parent = parentVar, source = sourceExpr,
                       properties = [\<lparr>propertyName = name, computed = computedOf sourceExpr\<rparr>]\<rparr>
                      varMap2)
              else (rootVar1, varMap1))"

definition analyzeConditions :: "(expr \<Rightarrow> string) \<Rightarrow> expr list \<Rightarrow> string option \<times> varMap" where
  "analyzeConditions toSource conditions = foldl (analyzeCondition toSource) (None, []) conditions"

text \<open>
  The loop of \<open>buildOptionalChain\<close> that traces the variables back to the root. The parents
  recorded in the map may form a cycle, and then the loop does not end: \<open>None\<close>.
\<close>

partial_function (option) traceBack ::
  "varMap \<Rightarrow> string \<Rightarrow> PropertyInfo list \<Rightarrow> PropertyInfo list option" where
  "traceBack varMap currentVar propertyChain =
     (if currentVar \<noteq> [] \<and> mapHas varMap currentVar then
        (case map_of varMap currentVar of
           None \<Rightarrow> Some propertyChain
         | Some varInfo \<Rightarrow>
             traceBack varMap
               (case parent varInfo of None \<Rightarrow> [] | Some p \<Rightarrow> p)
               (foldl (\<lambda>chain prop. prop # chain) propertyChain (properties varInfo)))
      else Some propertyChain)"

text \<open>\<open>/^[a-zA-Z_$][a-zA-Z0-9_$]*$/.test(str)\<close>\<close>

definition isLetter :: "char \<Rightarrow> bool" where
  "isLetter c = ((97 \<le> (of_char c :: nat) \<and> (of_char c :: nat) \<le> 122)
                 \<or> (65 \<le> (of_char c :: nat) \<and> (of_char c :: nat) \<le> 90))"

definition isDigit :: "char \<Rightarrow> bool" where
  "isDigit c = (48 \<le> (of_char c :: nat) \<and> (of_char c :: nat) \<le> 57)"

fun isValidIdentifier :: "string \<Rightarrow> bool" where
  "isValidIdentifier [] = False"
| "isValidIdentifier (c # cs) =
     ((isLetter c \<or> c = CHR ''_'' \<or> c = CHR ''$'')
      \<and> list_all (\<lambda>d. isLetter d \<or> isDigit d \<or> d = CHR ''_'' \<or> d = CHR ''$'') cs)"

text \<open>The second loop of \<open>buildOptionalChain\<close>: one optional member access for each property.\<close>

definition chainStep :: "expr \<Rightarrow> PropertyInfo \<Rightarrow> expr" where
  "chainStep e info =
     MemberExpression True e
       (if computed info \<or> \<not> isValidIdentifier (propertyName info)
        then Literal (propertyName info) else Identifier (propertyName info))
       (computed info)"

definition buildOptionalChain ::
  "(expr \<Rightarrow> string) \<Rightarrow> string \<Rightarrow> varMap \<Rightarrow> expr \<Rightarrow> expr option option" where
  "buildOptionalChain toSource rootVar varMap finalAccess =
     (case (if isMemberExpression finalAccess \<and> isIdentifier (objectOf finalAccess)
               \<and> mapHas varMap (nameOf (objectOf finalAccess)) then
              traceBack varMap (nameOf (objectOf finalAccess))
                [\<lparr>propertyName =
                     (if isIdentifier (propertyOf finalAccess) then nameOf (propertyOf finalAccess)
                      else toSource (propertyOf finalAccess)),
                   computed = computedOf finalAccess\<rparr>]
            else Some []) of
        None \<Rightarrow> None
      | Some propertyChain \<Rightarrow>
          if length propertyChain > 0
          then Some (Some (foldl chainStep (Identifier rootVar) propertyChain))
          else Some None)"

text \<open>
  \<open>analyzeOptionalChain(j, path, cleanUpVariables)\<close> on the node of the path: \<open>None\<close> when
  the call does not return, else the expression returned (\<open>None\<close> for \<open>null\<close>) and the names
  handed to the Scope Cleaner by \<open>cleanupTemporaryVariables\<close>.
\<close>

definition analyzeOptionalChain ::
  "(expr \<Rightarrow> string) \<Rightarrow> expr \<Rightarrow> bool \<Rightarrow> (expr option \<times> string list) option" where
  "analyzeOptionalChain toSource node cleanUpVariables =
     (if \<not> isConditionalExpression node then Some (None, [])
      else
        let test = testOf node; consequent = consequentOf node; alternate = alternateOf node
        in
          if \<not> isLogicalExpression test \<or> operatorOf test \<noteq> ''&&'' then Some (None, [])
          else
            let mainAssignmentCheck = leftOf test
            in
              if \<not> isBinaryExpression mainAssignmentCheck
                 \<or> \<not> (operatorOf mainAssignmentCheck \<in> set [''!=='', ''!=''])
                 \<or> \<not> isNull (leftOf mainAssignmentCheck)
                 \<or> \<not> isAssignmentExpression (rightOf mainAssignmentCheck)
              then Some (None, [])
              else
                let tempVar = leftOf (rightOf mainAssignmentCheck)
                in
                  if \<not> isIdentifier tempVar then Some (None, [])
                  else if \<not> isIdentifier consequent \<or> nameOf tempVar \<noteq> nameOf consequent
                  then Some (None, [])
                  else
                    let nestedConditional = rightOf (rightOf mainAssignmentCheck)
                    in
                      if \<not> isConditionalExpression nestedConditional then Some (None, [])
                      else if \<not> isUndefined (consequentOf nestedConditional) then Some (None, [])
                      else if \<not> isMemberExpression (alternateOf nestedConditional)
                      then Some (None, [])
                      else
                        (case analyzeConditions toSource
                                (extractLogicalOrConditions (testOf nestedConditional)) of
                           (rootVar, varMap) \<Rightarrow>
                             (case rootVar of
                                None \<Rightarrow> Some (None, [])
                              | Some root \<Rightarrow>
                                  if root = [] then Some (None, [])
                                  else
                                    (case buildOptionalChain toSource root varMap
                                            (alternateOf nestedConditional) of
                                       None \<Rightarrow> None
                                     | Some None \<Rightarrow> Some (None, [])
                                     | Some (Some finalExpr) \<Rightarrow>
                                         Some (Some (LogicalExpression ''??'' finalExpr alternate),
                                               if cleanUpVariables then map fst varMap else [])))))"

section \<open>Example inputs\<close>

text \<open>
  The closed examples run with an instance of \<open>smartParenthesized\<close> that returns its
  argument: the trees carry no parentheses.
\<close>

definition noParentheses :: "expr \<Rightarrow> expr" where
  "noParentheses e = e"

definition dot :: "expr \<Rightarrow> string \<Rightarrow> expr" where
  "dot ob p = MemberExpression False ob (Identifier p) False"

definition optionalDot :: "expr \<Rightarrow> string \<Rightarrow> expr" where
  "optionalDot ob p = MemberExpression True ob (Identifier p) False"

definition void0 :: expr where
  "void0 = UnaryExpression ''void'' (NumericLiteral 0) True"

text \<open>\<open>a !== null && a !== undefined && a.b !== null && a.b !== undefined\<close>\<close>

definition notNullGuards :: expr where
  "notNullGuards =
     LogicalExpression ''&&''
       (LogicalExpression ''&&''
          (LogicalExpression ''&&''
             (BinaryExpression ''!=='' (Identifier ''a'') NullLiteral)
             (BinaryExpression ''!=='' (Identifier ''a'') (Identifier ''undefined'')))
          (BinaryExpression ''!=='' (dot (Identifier ''a'') ''b'') NullLiteral))
       (BinaryExpression ''!=='' (dot (Identifier ''a'') ''b'') (Identifier ''undefined''))"

text \<open>\<open>a !== null && a !== undefined && a.b !== null && a.b !== undefined ? a.b.c : undefined\<close>\<close>

definition notNullTernary :: expr where
  "notNullTernary =
     ConditionalExpression notNullGuards (dot (dot (Identifier ''a'') ''b'') ''c'')
       (Identifier ''undefined'')"

text \<open>\<open>a !== null && a !== undefined && a.b !== null && a.b !== undefined && a.b.c\<close>\<close>

definition notNullLogical :: expr where
  "notNullLogical =
     LogicalExpression ''&&'' notNullGuards (dot (dot (Identifier ''a'') ''b'') ''c'')"

text \<open>
  The desugaring that the analyzer is written for, in the words of the spec (4.5):
  \<open>null !== (tmp = cond) && rhs ? tmp : fallback\<close>, where \<open>cond ? void 0 : access\<close> has for
  \<open>cond\<close> an OR-chain of guards: the root check \<open>null == root\<close>, then for each link the
  pair \<open>null === (tmpN = parent.prop)\<close>, \<open>void 0 === tmpN\<close>, the parent of a link being the
  temporary of the link before it (the root for the first).
\<close>

definition nullishCandidate ::
  "nat \<Rightarrow> string \<Rightarrow> expr \<Rightarrow> expr \<Rightarrow> expr \<Rightarrow> expr \<Rightarrow> expr" where
  "nullishCandidate i tmp cond access rhs fallback =
     ConditionalExpression
       (LogicalExpression ''&&''
          (BinaryExpression ''!=='' NullLiteral
             (AssignmentExpression i ''='' (Identifier tmp)
                (ConditionalExpression cond void0 access)))
          rhs)
       (Identifier tmp) fallback"

text \<open>
  The guards of the links; \<open>identity tmp\<close> is the identity that the assignment to the
  temporary \<open>tmp\<close> carries.
\<close>

fun chainGuards :: "(string \<Rightarrow> nat) \<Rightarrow> string \<Rightarrow> (string \<times> string) list \<Rightarrow> expr list" where
  "chainGuards identity par [] = []"
| "chainGuards identity par ((tmp, prop) # links) =
     BinaryExpression ''==='' NullLiteral
       (AssignmentExpression (identity tmp) ''='' (Identifier tmp) (dot (Identifier par) prop))
     # BinaryExpression ''==='' void0 (Identifier tmp)
     # chainGuards identity tmp links"

definition desugaredGuards ::
  "(string \<Rightarrow> nat) \<Rightarrow> string \<Rightarrow> (string \<times> string) list \<Rightarrow> expr list" where
  "desugaredGuards identity root links =
     BinaryExpression ''=='' NullLiteral (Identifier root) # chainGuards identity root links"

definition lastVariable :: "string \<Rightarrow> (string \<times> string) list \<Rightarrow> string" where
  "lastVariable root links = last (root # map fst links)"

text \<open>\<open>root?.p1?. ... ?.pn\<close>\<close>

definition optionalChain :: "string \<Rightarrow> string list \<Rightarrow> expr" where
  "optionalChain root props =
     foldl (\<lambda>e p. MemberExpression True e (Identifier p) False) (Identifier root) props"

text \<open>
  What the analysis records for such a chain: the entry of the root, and for each link the
  entry of its temporary, with the parent and the one property read from it.
\<close>

definition rootEntry :: "string \<Rightarrow> VarAssignment" where
  "rootEntry root = \<lparr>varName = root, parent = None, source = Identifier root, properties = []\<rparr>"

definition linkEntry :: "string \<Rightarrow> string \<Rightarrow> string \<Rightarrow> VarAssignment" where
  "linkEntry par tmp prop =
     \<lparr>varName = tmp, parent = Some par, source = dot (Identifier par) prop,
      properties = [\<lparr>propertyName = prop, computed = False\<rparr>]\<rparr>"

fun linkEntries :: "string \<Rightarrow> (string \<times> string) list \<Rightarrow> varMap" where
  "linkEntries par [] = []"
| "linkEntries par ((tmp, prop) # links) = (tmp, linkEntry par tmp prop) # linkEntries tmp links"

definition propertyInfo :: "string \<Rightarrow> PropertyInfo" where
  "propertyInfo p = \<lparr>propertyName = p, computed = False\<rparr>"

text \<open>A sub-condition that the loop of \<open>analyzeConditions\<close> looks at.\<close>

definition isNullishComparison :: "expr \<Rightarrow> bool" where
  "isNullishComparison c =
     (isBinaryExpression c \<and> operatorOf c \<in> set [''=='', ''==='', ''!='', ''!=='']
      \<and> (isNull (leftOf c) \<or> isNull (rightOf c)
           \<or> isUndefined (leftOf c) \<or> isUndefined (rightOf c)))"

text \<open>A printer for the closed examples; they never print.\<close>

definition noSource :: "expr \<Rightarrow> string" where
  "noSource e = []"


text \<open>
  \<open>null !== (t = null == r || x > 0 || null === (n = r.app_info) || void 0 === n
     ? void 0 : n.app_name) && void 0 !== t ? t : "game"\<close>
\<close>

definition foreignExample :: expr where
  "foreignExample =
     nullishCandidate 0 ''t''
       (LogicalExpression ''||''
          (LogicalExpression ''||''
             (LogicalExpression ''||''
                (BinaryExpression ''=='' NullLiteral (Identifier ''r''))
                (BinaryExpression ''>'' (Identifier ''x'') (NumericLiteral 0)))
             (BinaryExpression ''==='' NullLiteral
                (AssignmentExpression 1 ''='' (Identifier ''n'')
                   (dot (Identifier ''r'') ''app_info''))))
          (BinaryExpression ''==='' void0 (Identifier ''n'')))
       (dot (Identifier ''n'') ''app_name'')
       (BinaryExpression ''!=='' void0 (Identifier ''t''))
       (StringLiteral ''game'')"


section \<open>Properties of one attempt\<close>

lemma areNodesEqual_refl [simp]: "areNodesEqual e e"
  by (simp add: areNodesEqual_def)

lemma eraseIdentity_Identifier [simp]: "eraseIdentity e = Identifier n \<longleftrightarrow> e = Identifier n"
  by (cases e) auto

lemma areNodesEqual_Identifier [simp]:
  "areNodesEqual (Identifier n) e \<longleftrightarrow> e = Identifier n"
  "areNodesEqual e (Identifier n) \<longleftrightarrow> e = Identifier n"
  by (auto simp: areNodesEqual_def dest: sym)

text \<open>
  C1, as stated: for the input
  \<open>a !== null && a !== undefined && a.b !== null && a.b !== undefined ? a.b.c : undefined\<close>
  the transformation replaces the node with \<open>a?.b?.c\<close>. It does not: the negated tree has
  the leaf \<open>!undefined\<close> as true branch of its root, which is not a null or undefined leaf,
  so the Chain Constructor returns \<open>null\<close> at once.
\<close>

theorem C1_not_null_ternary_counterexample:
  "convertOptionalChaining noParentheses notNullTernary
     \<noteq> Inr (Some (optionalDot (optionalDot (Identifier ''a'') ''b'') ''c''))"
  by (simp add: convertOptionalChaining_def notNullTernary_def notNullGuards_def dot_def
      branchRejected_def isNull_def)

text \<open>
  C1, amended: for the input
  \<open>a !== null && a !== undefined && a.b !== null && a.b !== undefined && a.b.c\<close>, whose
  outer not-null test is normalized by tree negation and whose result is negated again,
  the transformation replaces the node with \<open>a?.b?.c\<close>; the ternary with the explicit
  alternate \<open>undefined\<close> is not replaced.
\<close>

theorem C1_not_null_chain:
  "convertOptionalChaining sp notNullLogical
     = Inr (Some (optionalDot (optionalDot (Identifier ''a'') ''b'') ''c''))
   \<and> convertOptionalChaining sp notNullTernary = Inr None"
  by (simp add: convertOptionalChaining_def notNullLogical_def notNullTernary_def
      notNullGuards_def dot_def optionalDot_def branchRejected_def isNull_def
      nullComparisonCase_def falseBranchCase_def leafCase_def leafAssignments_def
      nestedAssignments_def nodesOf.simps submittedNames_def)

theorem C1_not_null_chain_witness:
  "convertOptionalChaining noParentheses notNullLogical
     = Inr (Some (optionalDot (optionalDot (Identifier ''a'') ''b'') ''c''))"
  using C1_not_null_chain [of noParentheses] by simp

text \<open>\<open>null == a ? void 0 : b\<close>, \<open>a == null ? void 0 : b\<close> and \<open>a ? b : c\<close>\<close>

definition nullLeftTernary :: expr where
  "nullLeftTernary =
     ConditionalExpression (BinaryExpression ''=='' NullLiteral (Identifier ''a'')) void0
       (Identifier ''b'')"

definition nullRightTernary :: expr where
  "nullRightTernary =
     ConditionalExpression (BinaryExpression ''=='' (Identifier ''a'') NullLiteral) void0
       (Identifier ''b'')"

definition plainTernary :: expr where
  "plainTernary = ConditionalExpression (Identifier ''a'') (Identifier ''b'') (Identifier ''c'')"

text \<open>
  A replacement is returned only when \<open>transformed\<close> was assigned during the attempt, and
  \<open>a ? b : c\<close> is left alone.
\<close>

lemma convert_requires_flag:
  "convertOptionalChaining sp e = Inr (Some r) \<Longrightarrow>
   \<exists>res names. constructOptionalChaining sp (decisionTreeOf e) 0 = Inr (Some res, True, names)"
  by (auto simp: convertOptionalChaining_def decisionTreeOf_def Let_def
      split: sum.splits option.splits if_splits)

lemma convert_plainTernary: "convertOptionalChaining sp plainTernary = Inr None"
  by (simp add: convertOptionalChaining_def plainTernary_def branchRejected_def isNull_def)

text \<open>
  The identity test of the driver: \<open>a || a?.b\<close> comes back as a tree equal to the node, built
  anew, and is returned as the replacement.
\<close>

lemma convert_rebuilt:
  "convertOptionalChaining sp
     (LogicalExpression ''||'' (Identifier ''a'') (optionalDot (Identifier ''a'') ''b''))
   = Inr (Some (LogicalExpression ''||'' (Identifier ''a'') (optionalDot (Identifier ''a'') ''b'')))"
  by (simp add: convertOptionalChaining_def optionalDot_def branchRejected_def isNull_def
      falseBranchCase_def leafCase_def leafAssignments_def nestedAssignments_def nodesOf.simps
      submittedNames_def)

text \<open>A builder that throws ends the attempt: \<open>a == null ? void 0 : a.b.apply(a)\<close>.\<close>

lemma convert_throws:
  "convertOptionalChaining sp
     (ConditionalExpression (BinaryExpression ''=='' (Identifier ''a'') NullLiteral) void0
        (CallExpression False (dot (dot (Identifier ''a'') ''b'') ''apply'') [Identifier ''a'']))
   = Inl BuilderError"
  by (simp add: convertOptionalChaining_def void0_def dot_def branchRejected_def isNull_def
      nullComparisonCase_def leafCase_def leafAssignments_def nestedAssignments_def nodesOf.simps
      submittedNames_def)

text \<open>
  A member access that is optional already is a member access to the rewriter, which builds
  it again and sets the flag: \<open>a == null ? void 0 : f(a?.b)\<close> is replaced by \<open>f(a?.b)\<close>.
\<close>

lemma convert_optional_again:
  "convertOptionalChaining sp
     (ConditionalExpression (BinaryExpression ''=='' (Identifier ''a'') NullLiteral) void0
        (CallExpression False (Identifier ''f'') [optionalDot (Identifier ''a'') ''b'']))
   = Inr (Some (CallExpression False (Identifier ''f'') [optionalDot (Identifier ''a'') ''b'']))"
  by (simp add: convertOptionalChaining_def void0_def optionalDot_def branchRejected_def
      isNull_def nullComparisonCase_def leafCase_def leafAssignments_def nestedAssignments_def
      nodesOf.simps submittedNames_def)

text \<open>
  C3: convertOptionalChaining returns a replacement only if at least one optional
  substitution set the matched flag during that attempt. The code at the failing input
  \<open>null == a ? void 0 : b\<close>: the null comparison has \<open>null\<close> on the left, so the first block
  falls through (it tests \<open>left\<close>, not the compared expression) and the second block assigns
  \<open>transformed = true\<close> whatever the Expression Rewriter did. Nothing was substituted, and
  the node is replaced by \<open>b\<close>. The mirrored input \<open>a == null ? void 0 : b\<close> is refused.
\<close>

theorem C3_flag_set_without_substitution:
  "convertOptionalChaining sp nullLeftTernary = Inr (Some (Identifier ''b''))
   \<and> applyOptionalChaining sp (Identifier ''b'') (Identifier ''a'') None = Inr (Identifier ''b'', False)
   \<and> convertOptionalChaining sp nullRightTernary = Inr None"
  by (simp add: convertOptionalChaining_def nullLeftTernary_def nullRightTernary_def void0_def
      branchRejected_def isNull_def nullComparisonCase_def falseBranchCase_def leafCase_def
      leafAssignments_def nestedAssignments_def nodesOf.simps submittedNames_def)

theorem C3_flag_set_without_substitution_witness:
  "convertOptionalChaining noParentheses nullLeftTernary = Inr (Some (Identifier ''b''))"
  using C3_flag_set_without_substitution [of noParentheses] by simp

section \<open>Properties of the Expression Rewriter\<close>








section \<open>Properties of the Chain Constructor\<close>

text \<open>\<open>a === null ? void 0 : a.b\<close> and \<open>a == null ? void 0 : a.b\<close> as decision trees.\<close>

definition strictNullTree :: dtree where
  "strictNullTree =
     DecisionTree (BinaryExpression ''==='' (Identifier ''a'') NullLiteral)
       (Some (DecisionTree void0 None None))
       (Some (DecisionTree (dot (Identifier ''a'') ''b'') None None))"

definition looseNullTree :: dtree where
  "looseNullTree =
     DecisionTree (BinaryExpression ''=='' (Identifier ''a'') NullLiteral)
       (Some (DecisionTree void0 None None))
       (Some (DecisionTree (dot (Identifier ''a'') ''b'') None None))"

text \<open>\<open>a === void 0 ? void 0 : a.b\<close>, the second half of the two-level idiom.\<close>

definition undefinedTree :: dtree where
  "undefinedTree =
     DecisionTree (BinaryExpression ''==='' (Identifier ''a'') void0)
       (Some (DecisionTree void0 None None))
       (Some (DecisionTree (dot (Identifier ''a'') ''b'') None None))"

text \<open>
  The two-level idiom \<open>a === null || a === void 0 ? void 0 : a.b\<close> after condition
  splitting, and the same with the constants on the left,
  \<open>null === a || void 0 === a ? void 0 : a.b\<close>.
\<close>

definition twoLevelTree :: dtree where
  "twoLevelTree =
     DecisionTree (BinaryExpression ''==='' (Identifier ''a'') NullLiteral)
       (Some (DecisionTree void0 None None))
       (Some undefinedTree)"

definition twoLevelTreeMirrored :: dtree where
  "twoLevelTreeMirrored =
     DecisionTree (BinaryExpression ''==='' NullLiteral (Identifier ''a''))
       (Some (DecisionTree void0 None None))
       (Some (DecisionTree (BinaryExpression ''==='' void0 (Identifier ''a''))
                (Some (DecisionTree void0 None None))
                (Some (DecisionTree (dot (Identifier ''a'') ''b'') None None))))"

lemma plain_left:
  "isIdentifier l \<or> isMemberExpression l \<Longrightarrow> l \<noteq> NullLiteral \<and> \<not> isAssignmentExpression l"
  by (cases l) auto

lemma isAssignmentToIdentifier_iff:
  "isAssignmentToIdentifier c \<longleftrightarrow> isAssignmentExpression c \<and> isIdentifier (leftOf c)"
  by (cases c) auto

lemma mode0_gate:
  "isNullBinary (BinaryExpression op l r)
      \<and> \<not> branchRejected (DecisionTree (BinaryExpression op l r) t (Some f))
      \<and> constructOptionalChaining sp f (if op = ''=='' then 0 else 1) = Inr (None, m, names) \<longrightarrow>
    constructOptionalChaining sp (DecisionTree (BinaryExpression op l r) t (Some f)) 0
      = Inr (None, m, names)"
  by (simp add: nullComparisonCase_def)

lemma mode0_plain:
  "isNullBinary (BinaryExpression op l r)
      \<and> \<not> branchRejected (DecisionTree (BinaryExpression op l r) t (Some f))
      \<and> (isIdentifier l \<or> isMemberExpression l)
      \<and> constructOptionalChaining sp f (if op = ''=='' then 0 else 1) = Inr (Some cond, m, names)
      \<and> applyOptionalChaining sp cond l None = Inr (res, m') \<longrightarrow>
    constructOptionalChaining sp (DecisionTree (BinaryExpression op l r) t (Some f)) 0
      = Inr (Some res, m \<or> m', names)"
  using plain_left [of l] by (simp add: nullComparisonCase_def Let_def)

lemma mode0_assignment:
  "isNullBinary (BinaryExpression op l r)
      \<and> \<not> branchRejected (DecisionTree (BinaryExpression op l r) t (Some f))
      \<and> a = (if l = NullLiteral then r else l) \<and> isAssignmentToIdentifier a
      \<and> constructOptionalChaining sp f (if op = ''=='' then 0 else 1) = Inr (Some cond, m, names)
      \<and> foldAssignments sp (a # nestedAssignments a) cond = Inr (res, m') \<longrightarrow>
    constructOptionalChaining sp (DecisionTree (BinaryExpression op l r) t (Some f)) 0
      = Inr (Some res, m \<or> m', names @ submittedNames (a # nestedAssignments a))"
proof (intro impI, elim conjE)
  assume h: "isNullBinary (BinaryExpression op l r)"
    "\<not> branchRejected (DecisionTree (BinaryExpression op l r) t (Some f))"
    "a = (if l = NullLiteral then r else l)" "isAssignmentToIdentifier a"
    "constructOptionalChaining sp f (if op = ''=='' then 0 else 1) = Inr (Some cond, m, names)"
    "foldAssignments sp (a # nestedAssignments a) cond = Inr (res, m')"
  from h(3,4) have "isAssignmentExpression (if l = NullLiteral then r else l)
      \<and> isIdentifier (leftOf (if l = NullLiteral then r else l))"
    by (simp only: isAssignmentToIdentifier_iff)
  with h show "constructOptionalChaining sp (DecisionTree (BinaryExpression op l r) t (Some f)) 0
      = Inr (Some res, m \<or> m', names @ submittedNames (a # nestedAssignments a))"
    by (simp add: nullComparisonCase_def Let_def del: foldAssignments.simps)
qed

lemma mode0_null_left_loose:
  "\<not> branchRejected (DecisionTree (BinaryExpression ''=='' NullLiteral r) t
                          (Some (DecisionTree c tc None)))
      \<and> \<not> branchRejected (DecisionTree c tc None)
      \<and> (isIdentifier r \<or> isMemberExpression r) \<and> leafAssignments c = []
      \<and> applyOptionalChaining sp c r None = Inr (res, m') \<longrightarrow>
    constructOptionalChaining sp
        (DecisionTree (BinaryExpression ''=='' NullLiteral r) t (Some (DecisionTree c tc None))) 0
      = Inr (Some res, True, [])"
  using plain_left [of r]
  by (simp add: nullComparisonCase_def falseBranchCase_def leafCase_def submittedNames_def
      isNull_def Let_def)

lemma mode0_null_left_strict:
  "\<not> branchRejected (DecisionTree (BinaryExpression ''==='' NullLiteral r) t
                          (Some (DecisionTree u tu (Some (DecisionTree c tc None)))))
      \<and> \<not> branchRejected (DecisionTree u tu (Some (DecisionTree c tc None)))
      \<and> \<not> branchRejected (DecisionTree c tc None)
      \<and> isUndefinedBinary u \<and> \<not> isNullBinary u
      \<and> (isIdentifier r \<or> isMemberExpression r) \<and> leafAssignments c = []
      \<and> applyOptionalChaining sp c u None = Inr (res, m') \<longrightarrow>
    constructOptionalChaining sp
        (DecisionTree (BinaryExpression ''==='' NullLiteral r) t
           (Some (DecisionTree u tu (Some (DecisionTree c tc None))))) 0
      = Inr (Some (LogicalExpression ''||'' u res), True, [])"
  using plain_left [of r]
  by (simp add: nullComparisonCase_def falseBranchCase_def leafCase_def submittedNames_def
      isNull_def Let_def)

lemma mode1_only:
  "constructOptionalChaining sp (DecisionTree c t' fb) 1 = Inr (Some res', mu, namesu) \<longrightarrow>
    isUndefinedBinary c
    \<and> (\<exists>f'. fb = Some f' \<and> constructOptionalChaining sp f' 0 = Inr (Some res', mu, namesu))"
  by (auto split: if_splits option.splits)

lemma mode1_null:
  "\<not> (isUndefinedBinary c \<and> fb \<noteq> None) \<longrightarrow>
    constructOptionalChaining sp (DecisionTree c t' fb) 1 = Inr (None, False, [])"
  by (auto split: if_splits option.splits)

lemma mode1_onward:
  "isUndefinedBinary c \<and> \<not> branchRejected (DecisionTree c t' (Some f')) \<longrightarrow>
    constructOptionalChaining sp (DecisionTree c t' (Some f')) 1
      = constructOptionalChaining sp f' 0"
  by simp


text \<open>
  C5: at a null comparison with a false branch, in mode 0, the Chain Constructor recurses
  into the false branch in mode 0 when the operator is \<open>==\<close> and in mode 1 when it is
  \<open>===\<close>. When that call returns \<open>null\<close> so does the node, whatever the operands. When it
  returns a condition, the node returns it with the compared expression substituted: by the
  Expression Rewriter with the left operand as token when that is an identifier or a member
  access, and by the fold over the assignment and the assignments nested in it when the
  compared expression, on either side, is an assignment to an identifier. A comparison
  \<open>null == x\<close> or \<open>null === x\<close> with a plain \<open>x\<close> on the right is not returned by that block;
  over a false branch that the first descent only read, the node returns what the next
  block builds from a second descent in mode 0: \<open>x\<close> substituted in the leaf for \<open>==\<close>, and
  for \<open>===\<close> over an undefined comparison \<open>u\<close> the disjunction of \<open>u\<close> and the leaf.
  In mode 1 a call returns a result only on an undefined comparison with a false branch,
  and then it is the result of the false branch in mode 0; on any other shape it returns
  \<open>null\<close>.
\<close>

theorem C5_modes:
  "(isNullBinary (BinaryExpression op l r)
      \<and> \<not> branchRejected (DecisionTree (BinaryExpression op l r) t (Some f))
      \<and> constructOptionalChaining sp f (if op = ''=='' then 0 else 1) = Inr (None, m, names) \<longrightarrow>
    constructOptionalChaining sp (DecisionTree (BinaryExpression op l r) t (Some f)) 0
      = Inr (None, m, names))
   \<and> (isNullBinary (BinaryExpression op l r)
      \<and> \<not> branchRejected (DecisionTree (BinaryExpression op l r) t (Some f))
      \<and> (isIdentifier l \<or> isMemberExpression l)
      \<and> constructOptionalChaining sp f (if op = ''=='' then 0 else 1) = Inr (Some cond, m, names)
      \<and> applyOptionalChaining sp cond l None = Inr (res, m') \<longrightarrow>
    constructOptionalChaining sp (DecisionTree (BinaryExpression op l r) t (Some f)) 0
      = Inr (Some res, m \<or> m', names))
   \<and> (isNullBinary (BinaryExpression op l r)
      \<and> \<not> branchRejected (DecisionTree (BinaryExpression op l r) t (Some f))
      \<and> a = (if l = NullLiteral then r else l) \<and> isAssignmentToIdentifier a
      \<and> constructOptionalChaining sp f (if op = ''=='' then 0 else 1) = Inr (Some cond, m, names)
      \<and> foldAssignments sp (a # nestedAssignments a) cond = Inr (res, m') \<longrightarrow>
    constructOptionalChaining sp (DecisionTree (BinaryExpression op l r) t (Some f)) 0
      = Inr (Some res, m \<or> m', names @ submittedNames (a # nestedAssignments a)))
   \<and> (\<not> branchRejected (DecisionTree (BinaryExpression ''=='' NullLiteral r) t
                          (Some (DecisionTree c tc None)))
      \<and> \<not> branchRejected (DecisionTree c tc None)
      \<and> (isIdentifier r \<or> isMemberExpression r) \<and> leafAssignments c = []
      \<and> applyOptionalChaining sp c r None = Inr (res, m') \<longrightarrow>
    constructOptionalChaining sp
        (DecisionTree (BinaryExpression ''=='' NullLiteral r) t (Some (DecisionTree c tc None))) 0
      = Inr (Some res, True, []))
   \<and> (\<not> branchRejected (DecisionTree (BinaryExpression ''==='' NullLiteral r) t
                          (Some (DecisionTree u tu (Some (DecisionTree c tc None)))))
      \<and> \<not> branchRejected (DecisionTree u tu (Some (DecisionTree c tc None)))
      \<and> \<not> branchRejected (DecisionTree c tc None)
      \<and> isUndefinedBinary u \<and> \<not> isNullBinary u
      \<and> (isIdentifier r \<or> isMemberExpression r) \<and> leafAssignments c = []
      \<and> applyOptionalChaining sp c u None = Inr (res, m') \<longrightarrow>
    constructOptionalChaining sp
        (DecisionTree (BinaryExpression ''==='' NullLiteral r) t
           (Some (DecisionTree u tu (Some (DecisionTree c tc None))))) 0
      = Inr (Some (LogicalExpression ''||'' u res), True, []))
   \<and> (constructOptionalChaining sp (DecisionTree c t' fb) 1 = Inr (Some res', mu, namesu) \<longrightarrow>
    isUndefinedBinary c
    \<and> (\<exists>f'. fb = Some f' \<and> constructOptionalChaining sp f' 0 = Inr (Some res', mu, namesu)))
   \<and> (\<not> (isUndefinedBinary c \<and> fb \<noteq> None) \<longrightarrow>
    constructOptionalChaining sp (DecisionTree c t' fb) 1 = Inr (None, False, []))
   \<and> (isUndefinedBinary c \<and> \<not> branchRejected (DecisionTree c t' (Some f')) \<longrightarrow>
    constructOptionalChaining sp (DecisionTree c t' (Some f')) 1
      = constructOptionalChaining sp f' 0)"
  apply (intro conjI)
         apply (rule mode0_gate)
        apply (rule mode0_plain)
       apply (rule mode0_assignment)
      apply (rule mode0_null_left_loose)
     apply (rule mode0_null_left_strict)
    apply (rule mode1_only)
   apply (rule mode1_null)
  apply (rule mode1_onward)
  done

lemmas example_simps =
  void0_def dot_def optionalDot_def branchRejected_def isNull_def leafCase_def
  leafAssignments_def nestedAssignments_def nodesOf.simps submittedNames_def
  areNodesEqual_def

theorem C5_modes_witness:
  "constructOptionalChaining noParentheses strictNullTree 0 = Inr (None, False, [])
   \<and> constructOptionalChaining noParentheses looseNullTree 0
       = Inr (Some (optionalDot (Identifier ''a'') ''b''), True, [])
   \<and> constructOptionalChaining noParentheses undefinedTree 1
       = Inr (Some (dot (Identifier ''a'') ''b''), False, [])
   \<and> constructOptionalChaining noParentheses twoLevelTree 0
       = Inr (Some (optionalDot (Identifier ''a'') ''b''), True, [])
   \<and> constructOptionalChaining noParentheses
        (DecisionTree
           (BinaryExpression ''==''
              (AssignmentExpression 0 ''='' (Identifier ''t'') (dot (Identifier ''a'') ''b''))
              NullLiteral)
           (Some (DecisionTree void0 None None))
           (Some (DecisionTree (dot (Identifier ''t'') ''c'') None None))) 0
       = Inr (Some (optionalDot (dot (Identifier ''a'') ''b'') ''c''), True, [''t''])
   \<and> constructOptionalChaining noParentheses
        (DecisionTree (BinaryExpression ''=='' NullLiteral (Identifier ''a''))
           (Some (DecisionTree void0 None None))
           (Some (DecisionTree (dot (Identifier ''a'') ''b'') None None))) 0
       = Inr (Some (optionalDot (Identifier ''a'') ''b''), True, [])
   \<and> constructOptionalChaining noParentheses twoLevelTreeMirrored 0
       = Inr (Some (LogicalExpression ''||'' (BinaryExpression ''==='' void0 (Identifier ''a''))
                      (dot (Identifier ''a'') ''b'')), True, [])
   \<and> constructOptionalChaining noParentheses
        (DecisionTree (dot (Identifier ''a'') ''b'') None None) 1 = Inr (None, False, [])"
proof -
  let ?falsy = "Some (DecisionTree void0 None None)"
  let ?leaf = "DecisionTree (dot (Identifier ''a'') ''b'') None None"
  have leaf0: "constructOptionalChaining noParentheses ?leaf 0
      = Inr (Some (dot (Identifier ''a'') ''b''), False, [])"
    by (simp add: example_simps)
  have strict: "constructOptionalChaining noParentheses
      (DecisionTree (BinaryExpression ''==='' (Identifier ''a'') NullLiteral) ?falsy (Some ?leaf)) 0
      = Inr (None, False, [])"
    by (rule C5_modes [THEN conjunct1, THEN mp]) (simp add: example_simps)
  have loose: "constructOptionalChaining noParentheses
      (DecisionTree (BinaryExpression ''=='' (Identifier ''a'') NullLiteral) ?falsy (Some ?leaf)) 0
      = Inr (Some (optionalDot (Identifier ''a'') ''b''), False \<or> True, [])"
    by (rule C5_modes [where cond = "dot (Identifier ''a'') ''b''",
          THEN conjunct2, THEN conjunct1, THEN mp])
      (simp add: example_simps)
  have onward: "constructOptionalChaining noParentheses
      (DecisionTree (BinaryExpression ''==='' (Identifier ''a'') void0) ?falsy (Some ?leaf)) 1
      = constructOptionalChaining noParentheses ?leaf 0"
    by (rule C5_modes [THEN conjunct2, THEN conjunct2, THEN conjunct2, THEN conjunct2,
          THEN conjunct2, THEN conjunct2, THEN conjunct2, THEN mp])
      (simp add: example_simps)
  have undefined: "constructOptionalChaining noParentheses undefinedTree 1
      = Inr (Some (dot (Identifier ''a'') ''b''), False, [])"
    unfolding undefinedTree_def onward leaf0 ..
  have two: "constructOptionalChaining noParentheses
      (DecisionTree (BinaryExpression ''==='' (Identifier ''a'') NullLiteral) ?falsy
         (Some undefinedTree)) 0
      = Inr (Some (optionalDot (Identifier ''a'') ''b''), False \<or> True, [])"
    by (rule C5_modes [where cond = "dot (Identifier ''a'') ''b''",
          THEN conjunct2, THEN conjunct1, THEN mp])
      (simp add: undefined, simp add: example_simps undefinedTree_def)
  have assigned: "constructOptionalChaining noParentheses
      (DecisionTree
         (BinaryExpression ''==''
            (AssignmentExpression 0 ''='' (Identifier ''t'') (dot (Identifier ''a'') ''b''))
            NullLiteral)
         ?falsy (Some (DecisionTree (dot (Identifier ''t'') ''c'') None None))) 0
      = Inr (Some (optionalDot (dot (Identifier ''a'') ''b'') ''c''), False \<or> True,
             [] @ submittedNames
                    (AssignmentExpression 0 ''='' (Identifier ''t'') (dot (Identifier ''a'') ''b'')
                     # nestedAssignments
                         (AssignmentExpression 0 ''='' (Identifier ''t'')
                            (dot (Identifier ''a'') ''b''))))"
    by (rule C5_modes [where cond = "dot (Identifier ''t'') ''c''",
          THEN conjunct2, THEN conjunct2, THEN conjunct1, THEN mp])
      (simp add: example_simps noParentheses_def)
  have nullLeft: "constructOptionalChaining noParentheses
      (DecisionTree (BinaryExpression ''=='' NullLiteral (Identifier ''a'')) ?falsy (Some ?leaf)) 0
      = Inr (Some (optionalDot (Identifier ''a'') ''b''), True, [])"
    by (rule C5_modes [where m' = True,
          THEN conjunct2, THEN conjunct2, THEN conjunct2, THEN conjunct1, THEN mp])
      (simp add: example_simps)
  have mirrored: "constructOptionalChaining noParentheses
      (DecisionTree (BinaryExpression ''==='' NullLiteral (Identifier ''a'')) ?falsy
         (Some (DecisionTree (BinaryExpression ''==='' void0 (Identifier ''a'')) ?falsy
                  (Some ?leaf)))) 0
      = Inr (Some (LogicalExpression ''||'' (BinaryExpression ''==='' void0 (Identifier ''a''))
                     (dot (Identifier ''a'') ''b'')), True, [])"
    by (rule C5_modes [where m' = False,
          THEN conjunct2, THEN conjunct2, THEN conjunct2, THEN conjunct2,
          THEN conjunct1, THEN mp])
      (simp add: example_simps)
  have leaf1: "constructOptionalChaining noParentheses ?leaf 1 = Inr (None, False, [])"
    by (rule C5_modes [THEN conjunct2, THEN conjunct2, THEN conjunct2, THEN conjunct2,
          THEN conjunct2, THEN conjunct2, THEN conjunct1, THEN mp]) simp
  from strict loose undefined two assigned nullLeft mirrored leaf1 show ?thesis
    by (simp add: strictNullTree_def looseNullTree_def twoLevelTree_def twoLevelTreeMirrored_def
        example_simps)
qed



















text \<open>
  Two assignments of the same right-hand side to the same identifier, \<open>f(t = a.b, t = a.b)\<close>:
  the fold for the first puts \<open>a.b\<close> in its place and, the second being another node, \<open>a.b\<close>
  on the left of the second.
\<close>

lemma twin_assignments:
  "constructOptionalChaining noParentheses
     (DecisionTree
        (CallExpression False (Identifier ''f'')
           [AssignmentExpression 0 ''='' (Identifier ''t'') (dot (Identifier ''a'') ''b''),
            AssignmentExpression 1 ''='' (Identifier ''t'') (dot (Identifier ''a'') ''b'')])
        None None) 0
   = Inr (Some (CallExpression False (Identifier ''f'')
                  [dot (Identifier ''a'') ''b'',
                   AssignmentExpression 1 ''='' (dot (Identifier ''a'') ''b'')
                     (dot (Identifier ''a'') ''b'')]),
          False, [''t'', ''t''])"
  by (simp add: example_simps noParentheses_def isAssignableKind_def)



section \<open>Properties of the Nullish-Coalescing Chain Analyzer\<close>

lemma mapSet_fresh: "k \<notin> fst ` set m \<Longrightarrow> mapSet k v m = m @ [(k, v)]"
  by (induction m) auto

lemma analyzeCondition_root:
  "analyzeCondition ts (None, []) (BinaryExpression ''=='' NullLiteral (Identifier root))
     = (Some root, [(root, rootEntry root)])"
  by (simp add: analyzeCondition_def isNull_def rootEntry_def)

lemma analyzeCondition_undefined:
  "root \<noteq> [] \<Longrightarrow>
   analyzeCondition ts (Some root, m) (BinaryExpression ''==='' void0 (Identifier tmp)) = (Some root, m)"
  by (simp add: analyzeCondition_def isNull_def void0_def)

lemma analyzeCondition_link:
  "root \<noteq> [] \<Longrightarrow>
   analyzeCondition ts (Some root, m)
     (BinaryExpression ''==='' NullLiteral
        (AssignmentExpression i ''='' (Identifier tmp) (dot (Identifier par) prop)))
   = (Some root, mapSet tmp (linkEntry par tmp prop) m)"
  by (simp add: analyzeCondition_def isNull_def dot_def linkEntry_def)

lemma fst_linkEntries: "map fst (linkEntries par links) = map fst links"
  by (induction par links rule: linkEntries.induct) auto

lemma foldl_chainGuards:
  "root \<noteq> [] \<Longrightarrow> distinct (map fst links) \<Longrightarrow> set (map fst links) \<inter> fst ` set m = {} \<Longrightarrow>
   foldl (analyzeCondition ts) (Some root, m) (chainGuards identity par links)
     = (Some root, m @ linkEntries par links)"
proof (induction identity par links arbitrary: m rule: chainGuards.induct)
  case (1 identity p)
  then show ?case by simp
next
  case (2 identity p v q ls)
  have fresh: "v \<notin> fst ` set m" using "2.prems"(3) by auto
  have disj: "set (map fst ls) \<inter> fst ` set (m @ [(v, linkEntry p v q)]) = {}"
    using "2.prems"(2,3) by auto
  have "foldl (analyzeCondition ts) (Some root, m) (chainGuards identity p ((v, q) # ls))
      = foldl (analyzeCondition ts) (Some root, m @ [(v, linkEntry p v q)])
          (chainGuards identity v ls)"
    using "2.prems"(1) fresh
    by (simp add: analyzeCondition_link analyzeCondition_undefined mapSet_fresh)
  also have "\<dots> = (Some root, (m @ [(v, linkEntry p v q)]) @ linkEntries v ls)"
    using "2.prems" by (intro "2.IH" disj) auto
  finally show ?case by simp
qed

lemma analyzeConditions_desugared:
  assumes "root \<noteq> []" and "distinct (root # map fst links)"
  shows "analyzeConditions ts (desugaredGuards identity root links)
           = (Some root, (root, rootEntry root) # linkEntries root links)"
proof -
  have "foldl (analyzeCondition ts) (Some root, [(root, rootEntry root)])
          (chainGuards identity root links)
      = (Some root, [(root, rootEntry root)] @ linkEntries root links)"
    using assms by (intro foldl_chainGuards) auto
  then show ?thesis
    by (simp add: analyzeConditions_def desugaredGuards_def analyzeCondition_root)
qed

lemma lastVariable_snoc [simp]: "lastVariable root (pre @ [(v, q)]) = v"
  by (simp add: lastVariable_def)

lemma lastVariable_Nil [simp]: "lastVariable root [] = root"
  by (simp add: lastVariable_def)

lemma linkEntries_append:
  "linkEntries p (xs @ ys) = linkEntries p xs @ linkEntries (lastVariable p xs) ys"
proof (induction p xs rule: linkEntries.induct)
  case (1 p)
  then show ?case by simp
next
  case (2 p v q ls)
  have "lastVariable p ((v, q) # ls) = lastVariable v ls"
    by (simp add: lastVariable_def)
  with 2 show ?case by simp
qed

lemma map_of_chain_link:
  assumes "distinct (root # map fst (pre @ (v, q) # suf))"
  shows "map_of ((root, rootEntry root) # linkEntries root (pre @ (v, q) # suf)) v
           = Some (linkEntry (lastVariable root pre) v q)"
proof -
  have keys: "map fst (linkEntries root pre) = map fst pre"
    by (rule fst_linkEntries)
  have "v \<noteq> root" using assms by auto
  moreover have "v \<notin> set (map fst pre)"
    using assms by auto
  then have "v \<notin> set (map fst (linkEntries root pre))"
    using keys by simp
  then have "map_of (linkEntries root pre) v = None"
    by (simp add: map_of_eq_None_iff)
  ultimately show ?thesis
    by (simp add: linkEntries_append map_add_def)
qed

lemma traceBack_chain:
  assumes "root \<noteq> []" and "[] \<notin> set (map fst links)" and "distinct (root # map fst links)"
    and "links = pre @ suf"
  shows "traceBack ((root, rootEntry root) # linkEntries root links) (lastVariable root pre) chain
           = Some (map propertyInfo (map snd pre) @ chain)"
  using assms(4)
proof (induction pre arbitrary: suf chain rule: rev_induct)
  case Nil
  have "traceBack ((root, rootEntry root) # linkEntries root links) root chain
      = traceBack ((root, rootEntry root) # linkEntries root links) [] chain"
    using assms(1) by (subst traceBack.simps) (simp add: mapHas_def rootEntry_def)
  also have "\<dots> = Some chain"
    by (subst traceBack.simps) simp
  finally show ?case by simp
next
  case (snoc x pre)
  obtain v q where x: "x = (v, q)" by (cases x)
  have links: "links = pre @ (v, q) # suf" using snoc.prems x by simp
  have v: "v \<noteq> []" using assms(2) links by auto
  have entry: "map_of ((root, rootEntry root) # linkEntries root links) v
      = Some (linkEntry (lastVariable root pre) v q)"
    using map_of_chain_link [of root pre v q suf] assms(3) links by simp
  have "traceBack ((root, rootEntry root) # linkEntries root links) v chain
      = traceBack ((root, rootEntry root) # linkEntries root links) (lastVariable root pre)
          (propertyInfo q # chain)"
    using v entry
    by (subst traceBack.simps) (simp add: mapHas_def linkEntry_def propertyInfo_def)
  also have "\<dots> = Some (map propertyInfo (map snd pre) @ propertyInfo q # chain)"
    using links by (intro snoc.IH [of "(v, q) # suf"]) simp
  finally show ?case using x by simp
qed

lemma foldl_chainStep:
  "list_all isValidIdentifier props \<Longrightarrow>
   foldl chainStep e (map propertyInfo props)
     = foldl (\<lambda>e p. MemberExpression True e (Identifier p) False) e props"
  by (induction props arbitrary: e) (auto simp: chainStep_def propertyInfo_def)

lemma lastVariable_key:
  "mapHas ((root, rootEntry root) # linkEntries root links) (lastVariable root links)"
proof -
  have "lastVariable root links \<in> set (root # map fst links)"
    unfolding lastVariable_def by (rule last_in_set) simp
  then have "lastVariable root links
      \<in> set (map fst ((root, rootEntry root) # linkEntries root links))"
    by (simp add: fst_linkEntries)
  then have "lastVariable root links
      \<in> fst ` set ((root, rootEntry root) # linkEntries root links)"
    by (simp only: set_map)
  then show ?thesis
    unfolding mapHas_def by (simp only: map_of_eq_None_iff not_not)
qed

text \<open>What the analyzer does with a node that passes the fixed checks.\<close>

lemma analyze_candidate:
  "analyzeOptionalChain ts (nullishCandidate i tmp cond access rhs fallback) cleanUp
    = (if \<not> isMemberExpression access then Some (None, [])
       else
         (case analyzeConditions ts (extractLogicalOrConditions cond) of
            (rootVar, varMap) \<Rightarrow>
              (case rootVar of
                 None \<Rightarrow> Some (None, [])
               | Some r \<Rightarrow>
                   if r = [] then Some (None, [])
                   else
                     (case buildOptionalChain ts r varMap access of
                        None \<Rightarrow> None
                      | Some None \<Rightarrow> Some (None, [])
                      | Some (Some finalExpr) \<Rightarrow>
                          Some (Some (LogicalExpression ''??'' finalExpr fallback),
                                if cleanUp then map fst varMap else [])))))"
  by (simp add: analyzeOptionalChain_def nullishCandidate_def void0_def isNull_def
      split: prod.splits option.splits)

lemma analyze_desugared:
  assumes "[] \<notin> set (root # map fst links)" and "distinct (root # map fst links)"
    and "list_all isValidIdentifier (map snd links @ [final])"
    and "extractLogicalOrConditions cond = desugaredGuards identity root links"
  shows "analyzeOptionalChain ts
           (nullishCandidate i tmp cond (dot (Identifier (lastVariable root links)) final) rhs fallback)
           cleanUp
         = Some (Some (LogicalExpression ''??'' (optionalChain root (map snd links @ [final])) fallback),
                 if cleanUp then root # map fst links else [])"
proof -
  let ?M = "(root, rootEntry root) # linkEntries root links"
  let ?props = "map snd links @ [final]"
  have root: "root \<noteq> []" using assms(1) by auto
  have conds: "analyzeConditions ts (extractLogicalOrConditions cond) = (Some root, ?M)"
    using analyzeConditions_desugared [OF root assms(2)] assms(4) by simp
  have has: "mapHas ?M (lastVariable root links)"
    by (rule lastVariable_key)
  have "traceBack ?M (lastVariable root links) [propertyInfo final]
      = Some (map propertyInfo (map snd links) @ [propertyInfo final])"
    using assms(1) by (intro traceBack_chain [OF root _ assms(2), of links "[]"]) auto
  then have trace: "traceBack ?M (lastVariable root links) [propertyInfo final]
      = Some (map propertyInfo ?props)"
    by simp
  have "buildOptionalChain ts root ?M (dot (Identifier (lastVariable root links)) final)
      = (case traceBack ?M (lastVariable root links) [propertyInfo final] of
           None \<Rightarrow> None
         | Some pc \<Rightarrow>
             if length pc > 0 then Some (Some (foldl chainStep (Identifier root) pc))
             else Some None)"
    using has by (simp add: buildOptionalChain_def dot_def propertyInfo_def)
  also have "\<dots> = Some (Some (foldl chainStep (Identifier root) (map propertyInfo ?props)))"
    by (simp only: trace option.case) simp
  also have "\<dots> = Some (Some (optionalChain root ?props))"
    by (simp only: foldl_chainStep [OF assms(3)] optionalChain_def)
  finally have build:
    "buildOptionalChain ts root ?M (dot (Identifier (lastVariable root links)) final)
       = Some (Some (optionalChain root ?props))" .
  have keys: "map fst ?M = root # map fst links"
    by (simp add: fst_linkEntries)
  have member: "isMemberExpression (dot (Identifier (lastVariable root links)) final)"
    by (simp add: dot_def)
  show ?thesis
    unfolding analyze_candidate conds using root member
    by (simp only: build keys prod.case option.case if_False not_True_eq_False simp_thms)
qed





lemma analyzeCondition_skip:
  "\<not> isNullishComparison f \<Longrightarrow> analyzeCondition ts st f = st"
  by (cases st) (auto simp: analyzeCondition_def isNullishComparison_def Let_def)

lemma analyzeConditions_skip:
  "\<not> isNullishComparison f \<Longrightarrow>
   analyzeConditions ts (cs1 @ f # cs2) = analyzeConditions ts (cs1 @ cs2)"
  by (simp add: analyzeConditions_def analyzeCondition_skip)

lemma analyze_skip:
  assumes "\<not> isNullishComparison f"
    and "extractLogicalOrConditions cond' = cs1 @ f # cs2"
    and "extractLogicalOrConditions cond = cs1 @ cs2"
  shows "analyzeOptionalChain ts (nullishCandidate i t cond' access rhs fallback) c
           = analyzeOptionalChain ts (nullishCandidate i t cond access rhs fallback) c"
proof -
  have "analyzeConditions ts (extractLogicalOrConditions cond')
      = analyzeConditions ts (extractLogicalOrConditions cond)"
    using assms(1) by (simp add: assms(2,3) analyzeConditions_skip)
  then show ?thesis
    by (simp only: analyze_candidate)
qed












text \<open>
  C9: a sub-condition of the OR-chain that is not a binary comparison with \<open>null\<close> or
  \<open>undefined\<close> is skipped: the analyzer returns for the chain with the foreign condition what
  it returns for the chain without it. For the input with the foreign condition \<open>x > 0\<close>,
  \<open>null !== (t = null == r || x > 0 || null === (n = r.app_info) || void 0 === n
     ? void 0 : n.app_name) && void 0 !== t ? t : "game"\<close>,
  it returns \<open>r?.app_info?.app_name ?? "game"\<close>.
\<close>

theorem C9_foreign_condition_skipped:
  "(\<not> isNullishComparison f \<and> extractLogicalOrConditions cond' = cs1 @ f # cs2
      \<and> extractLogicalOrConditions cond = cs1 @ cs2 \<longrightarrow>
    analyzeOptionalChain ts (nullishCandidate i t cond' access rhs fallback) c
      = analyzeOptionalChain ts (nullishCandidate i t cond access rhs fallback) c)
   \<and> \<not> isNullishComparison (BinaryExpression ''>'' (Identifier ''x'') (NumericLiteral 0))
   \<and> analyzeOptionalChain ts foreignExample True
      = Some (Some (LogicalExpression ''??''
                      (optionalDot (optionalDot (Identifier ''r'') ''app_info'') ''app_name'')
                      (StringLiteral ''game'')),
              [''r'', ''n''])"
proof -
  let ?f = "BinaryExpression ''>'' (Identifier ''x'') (NumericLiteral 0)"
  let ?clean = "LogicalExpression ''||''
      (LogicalExpression ''||''
         (BinaryExpression ''=='' NullLiteral (Identifier ''r''))
         (BinaryExpression ''==='' NullLiteral
            (AssignmentExpression 1 ''='' (Identifier ''n'') (dot (Identifier ''r'') ''app_info''))))
      (BinaryExpression ''==='' void0 (Identifier ''n''))"
  have foreign: "\<not> isNullishComparison ?f"
    by (simp add: isNullishComparison_def)
  have "analyzeOptionalChain ts foreignExample True
      = analyzeOptionalChain ts
          (nullishCandidate 0 ''t'' ?clean (dot (Identifier ''n'') ''app_name'')
             (BinaryExpression ''!=='' void0 (Identifier ''t'')) (StringLiteral ''game''))
          True"
    unfolding foreignExample_def
    by (rule analyze_skip [OF foreign,
          of _ "[BinaryExpression ''=='' NullLiteral (Identifier ''r'')]"]) simp_all
  also have "\<dots> = Some (Some (LogicalExpression ''??''
        (optionalChain ''r'' (map snd [(''n'', ''app_info'')] @ [''app_name'']))
        (StringLiteral ''game'')),
      if True then ''r'' # map fst [(''n'', ''app_info'')] else [])"
    using analyze_desugared [of "''r''" "[(''n'', ''app_info'')]" "''app_name''" ?clean "\<lambda>v. 1"
        ts 0 "''t''" "BinaryExpression ''!=='' void0 (Identifier ''t'')" "StringLiteral ''game''" True]
    by (simp add: desugaredGuards_def lastVariable_def isLetter_def isDigit_def)
  finally have example: "analyzeOptionalChain ts foreignExample True
      = Some (Some (LogicalExpression ''??''
                      (optionalDot (optionalDot (Identifier ''r'') ''app_info'') ''app_name'')
                      (StringLiteral ''game'')),
              [''r'', ''n''])"
    by (simp add: optionalChain_def optionalDot_def)
  from analyze_skip [of f cond' cs1 cs2 cond ts i t access rhs fallback c] foreign example
  show ?thesis by blast
qed

theorem C9_foreign_condition_skipped_witness:
  "analyzeOptionalChain noSource foreignExample True
   = Some (Some (LogicalExpression ''??''
                   (optionalDot (optionalDot (Identifier ''r'') ''app_info'') ''app_name'')
                   (StringLiteral ''game'')),
           [''r'', ''n''])
   \<and> analyzeOptionalChain noSource
       (nullishCandidate 0 ''t''
          (LogicalExpression ''||'' (BinaryExpression ''=='' NullLiteral (Identifier ''r''))
             (BinaryExpression ''>'' (Identifier ''x'') (NumericLiteral 0)))
          (dot (Identifier ''r'') ''a'') NullLiteral NullLiteral) False
     = analyzeOptionalChain noSource
       (nullishCandidate 0 ''t'' (BinaryExpression ''=='' NullLiteral (Identifier ''r''))
          (dot (Identifier ''r'') ''a'') NullLiteral NullLiteral) False"
proof -
  have "analyzeOptionalChain noSource
       (nullishCandidate 0 ''t''
          (LogicalExpression ''||'' (BinaryExpression ''=='' NullLiteral (Identifier ''r''))
             (BinaryExpression ''>'' (Identifier ''x'') (NumericLiteral 0)))
          (dot (Identifier ''r'') ''a'') NullLiteral NullLiteral) False
     = analyzeOptionalChain noSource
       (nullishCandidate 0 ''t'' (BinaryExpression ''=='' NullLiteral (Identifier ''r''))
          (dot (Identifier ''r'') ''a'') NullLiteral NullLiteral) False"
    by (rule C9_foreign_condition_skipped [THEN conjunct1, THEN mp,
          of "BinaryExpression ''>'' (Identifier ''x'') (NumericLiteral 0)" _
             "[BinaryExpression ''=='' NullLiteral (Identifier ''r'')]" "[]"])
      (simp add: isNullishComparison_def)
  with C9_foreign_condition_skipped [of _ _ _ _ _ noSource, THEN conjunct2, THEN conjunct2]
  show ?thesis by simp
qed

end
